theory Spec2Isabelle
  imports Complex_Main "HOL-Library.Word" "HOL-Library.AList"
begin

unbundle bit_operations_syntax

section \<open>Machine types\<close>

type_synonym AmUInt8 = "8 word"
type_synonym AmUInt16 = "16 word"
type_synonym AmUInt32 = "32 word"
type_synonym AmUInt64 = "64 word"
type_synonym AmSize = "64 word"

section \<open>Floating-point values\<close>

text \<open>
  The value of an \<open>AmReal32\<close> or \<open>AmReal64\<close>: a finite number, given as the rational it
  denotes, an infinity or a NaN. The comparisons are those of IEEE 754: every comparison
  with a NaN is false. The two signed zeros are one value here, and the result of an
  arithmetic operation is the exact one, before rounding to the format.
\<close>

datatype ieee_float = Finite rat | PosInf | NegInf | NaN

type_synonym AmReal32 = ieee_float
type_synonym AmReal64 = ieee_float

fun f_lt :: "ieee_float \<Rightarrow> ieee_float \<Rightarrow> bool" where
  "f_lt NaN y = False"
| "f_lt x NaN = False"
| "f_lt (Finite a) (Finite b) = (a < b)"
| "f_lt (Finite a) PosInf = True"
| "f_lt (Finite a) NegInf = False"
| "f_lt PosInf y = False"
| "f_lt NegInf NegInf = False"
| "f_lt NegInf y = True"

fun f_le :: "ieee_float \<Rightarrow> ieee_float \<Rightarrow> bool" where
  "f_le NaN y = False"
| "f_le x NaN = False"
| "f_le (Finite a) (Finite b) = (a \<le> b)"
| "f_le (Finite a) PosInf = True"
| "f_le (Finite a) NegInf = False"
| "f_le PosInf PosInf = True"
| "f_le PosInf y = False"
| "f_le NegInf y = True"

definition f_gt :: "ieee_float \<Rightarrow> ieee_float \<Rightarrow> bool" where
  "f_gt x y = f_lt y x"

text \<open>\<open>1.0f / x\<close>.\<close>

fun f_recip :: "ieee_float \<Rightarrow> ieee_float" where
  "f_recip (Finite a) = (if a = 0 then PosInf else Finite (1 / a))"
| "f_recip PosInf = Finite 0"
| "f_recip NegInf = Finite 0"
| "f_recip NaN = NaN"

section \<open>Types.h\<close>

text \<open>A \<open>time_point\<close> of the high-resolution clock, as its count of nanoseconds since the epoch.\<close>

type_synonym ProfilerTime = int
type_synonym ProfilerClientID = AmUInt32
type_synonym ProfilerMessageID = AmUInt64

definition kDefaultProfilerPort :: AmUInt16 where
  "kDefaultProfilerPort = 27002"

definition kMaxProfilerClients :: AmUInt32 where
  "kMaxProfilerClients = 8"

definition kProfilerMessageBufferSize :: AmUInt32 where
  "kProfilerMessageBufferSize = 1024 * 1024"

datatype eProfilerUpdateMode =
  eProfilerUpdateMode_Timed | eProfilerUpdateMode_OnChange
| eProfilerUpdateMode_PerFrame | eProfilerUpdateMode_Manual

datatype eProfilerCategory =
  eProfilerCategory_None | eProfilerCategory_Engine | eProfilerCategory_Entity
| eProfilerCategory_Channel | eProfilerCategory_Listener | eProfilerCategory_Environment
| eProfilerCategory_Performance | eProfilerCategory_Memory | eProfilerCategory_Events
| eProfilerCategory_All

text \<open>The enumerators' values, \<open>static_cast<AmUInt32>(category)\<close>.\<close>

fun category_bits :: "eProfilerCategory \<Rightarrow> AmUInt32" where
  "category_bits eProfilerCategory_None = 0"
| "category_bits eProfilerCategory_Engine = push_bit 0 1"
| "category_bits eProfilerCategory_Entity = push_bit 1 1"
| "category_bits eProfilerCategory_Channel = push_bit 2 1"
| "category_bits eProfilerCategory_Listener = push_bit 3 1"
| "category_bits eProfilerCategory_Environment = push_bit 4 1"
| "category_bits eProfilerCategory_Performance = push_bit 5 1"
| "category_bits eProfilerCategory_Memory = push_bit 6 1"
| "category_bits eProfilerCategory_Events = push_bit 7 1"
| "category_bits eProfilerCategory_All = 0xFFFFFFFF"

datatype eProfilerPriority =
  eProfilerPriority_Low | eProfilerPriority_Normal | eProfilerPriority_High
| eProfilerPriority_Critical

fun priority_value :: "eProfilerPriority \<Rightarrow> AmUInt8" where
  "priority_value eProfilerPriority_Low = 0"
| "priority_value eProfilerPriority_Normal = 1"
| "priority_value eProfilerPriority_High = 2"
| "priority_value eProfilerPriority_Critical = 3"

text \<open>The log levels of the engine's \<open>Log.h\<close>, as \<open>Config.cpp\<close> names them.\<close>

datatype eLogMessageLevel =
  eLogMessageLevel_Debug | eLogMessageLevel_Info | eLogMessageLevel_Warning
| eLogMessageLevel_Error | eLogMessageLevel_Critical | eLogMessageLevel_Success

section \<open>ProfilerConfig (Config.h, Config.cpp)\<close>

record ProfilerConfig =
  mEnableNetworking :: bool
  mServerPort :: AmUInt16
  mMaxClients :: AmUInt32
  mBindAddress :: string
  mUpdateMode :: eProfilerUpdateMode
  mUpdateFrequencyHz :: AmReal32
  mMaxMessagesPerFrame :: AmUInt32
  mCategoryMask :: AmUInt32
  mCaptureEngineState :: bool
  mCaptureEntityStates :: bool
  mCaptureChannelStates :: bool
  mCaptureListenerStates :: bool
  mCapturePerformanceMetrics :: bool
  mCaptureEvents :: bool
  mMessageBufferSize :: AmUInt32
  mMaxQueuedMessages :: AmUInt32
  mUseCompressionForNetwork :: bool
  mPositionChangeThreshold :: AmReal32
  mOrientationChangeThreshold :: AmReal32
  mParameterChangeThreshold :: AmReal32
  mEnableLogging :: bool
  mLoggingLevel :: eLogMessageLevel
  mLogFilePath :: string

text \<open>
  The default constructor. The literals \<open>0.01f\<close> and \<open>0.017453f\<close> are the
  single-precision numbers nearest to them.
\<close>

definition ProfilerConfig_default :: ProfilerConfig where
  "ProfilerConfig_default =
     \<lparr>mEnableNetworking = True,
      mServerPort = kDefaultProfilerPort,
      mMaxClients = kMaxProfilerClients,
      mBindAddress = ''127.0.0.1'',
      mUpdateMode = eProfilerUpdateMode_Timed,
      mUpdateFrequencyHz = Finite 30,
      mMaxMessagesPerFrame = 100,
      mCategoryMask = category_bits eProfilerCategory_All,
      mCaptureEngineState = True,
      mCaptureEntityStates = True,
      mCaptureChannelStates = True,
      mCaptureListenerStates = True,
      mCapturePerformanceMetrics = True,
      mCaptureEvents = True,
      mMessageBufferSize = kProfilerMessageBufferSize,
      mMaxQueuedMessages = 1000,
      mUseCompressionForNetwork = False,
      mPositionChangeThreshold = Finite (5368709 / 536870912),
      mOrientationChangeThreshold = Finite (1171251 / 67108864),
      mParameterChangeThreshold = Finite (5368709 / 536870912),
      mEnableLogging = False,
      mLoggingLevel = eLogMessageLevel_Debug,
      mLogFilePath = ''amplitude_profiler.log''\<rparr>"

text \<open>
  \<open>Validate\<close>, check by check in the order of the source; each failing check logs an
  error and returns false. The bound \<open>3.14159f\<close> is the single-precision number
  \<open>823549 / 262144\<close>.
\<close>

definition Validate :: "ProfilerConfig \<Rightarrow> bool" where
  "Validate c =
     (if mEnableNetworking c \<and> mServerPort c = 0 then False
      else if mEnableNetworking c \<and> (mMaxClients c = 0 \<or> mMaxClients c > kMaxProfilerClients) then False
      else if mEnableNetworking c \<and> mBindAddress c = [] then False
      else if f_le (mUpdateFrequencyHz c) (Finite 0) \<or> f_gt (mUpdateFrequencyHz c) (Finite 1000) then False
      else if mMaxMessagesPerFrame c = 0 \<or> mMaxMessagesPerFrame c > 10000 then False
      else if mMessageBufferSize c < 1024 then False
      else if mMaxQueuedMessages c = 0 \<or> mMaxQueuedMessages c > 100000 then False
      else if f_lt (mPositionChangeThreshold c) (Finite 0)
            \<or> f_gt (mPositionChangeThreshold c) (Finite 1000) then False
      else if f_lt (mOrientationChangeThreshold c) (Finite 0)
            \<or> f_gt (mOrientationChangeThreshold c) (Finite (823549 / 262144)) then False
      else if f_lt (mParameterChangeThreshold c) (Finite 0)
            \<or> f_gt (mParameterChangeThreshold c) (Finite 1) then False
      else if mEnableLogging c \<and> mLogFilePath c = [] then False
      else True)"

section \<open>Snapshots (Data.h, Data.cpp)\<close>

text \<open>
  \<open>GenerateMessageId\<close> is \<open>++_sMessageIdCounter\<close> on the process-wide atomic 64-bit
  counter: one indivisible step that adds one, wrapping at \<open>2^64\<close>, and returns the new
  value. The function takes the counter and returns the identifier with the new counter.
\<close>

definition sMessageIdCounter_init :: ProfilerMessageID where
  "sMessageIdCounter_init = 0"

definition GenerateMessageId :: "ProfilerMessageID \<Rightarrow> ProfilerMessageID \<times> ProfilerMessageID" where
  "GenerateMessageId counter = (counter + 1, counter + 1)"

record ProfilerDataSnapshot =
  mTimestamp :: ProfilerTime
  mMessageId :: ProfilerMessageID
  mCategory :: eProfilerCategory
  mPriority :: eProfilerPriority

text \<open>
  The constructor of the base class, which every snapshot kind runs first: \<open>now\<close> is the
  clock's reading, the identifier comes from the counter.
\<close>

definition ProfilerDataSnapshot_new :: "ProfilerTime \<Rightarrow> ProfilerMessageID \<Rightarrow> ProfilerDataSnapshot \<times> ProfilerMessageID" where
  "ProfilerDataSnapshot_new now counter =
     (case GenerateMessageId counter of
        (messageId, counter') \<Rightarrow>
          (\<lparr>mTimestamp = now, mMessageId = messageId, mCategory = eProfilerCategory_Engine,
            mPriority = eProfilerPriority_Normal\<rparr>, counter'))"

text \<open>
  Snapshots constructed one after the other, in the order in which their increments of
  the counter take effect; the list gives the clock reading of each construction.
\<close>

fun construct_snapshots :: "ProfilerTime list \<Rightarrow> ProfilerMessageID \<Rightarrow> ProfilerDataSnapshot list \<times> ProfilerMessageID" where
  "construct_snapshots [] counter = ([], counter)"
| "construct_snapshots (now # nows) counter =
     (case ProfilerDataSnapshot_new now counter of
        (snapshot, counter') \<Rightarrow>
          (case construct_snapshots nows counter' of
             (snapshots, counter'') \<Rightarrow> (snapshot # snapshots, counter'')))"

subsection \<open>The six snapshot kinds\<close>

text \<open>A vector of three floats; \<open>v0\<close>, \<open>v1\<close>, \<open>v2\<close> are \<open>v[0]\<close>, \<open>v[1]\<close>, \<open>v[2]\<close>.\<close>

datatype AmVector3 = AmVector3 (v0: AmReal32) (v1: AmReal32) (v2: AmReal32)

text \<open>
  Object identifiers of the engine are 64-bit; \<open>AmTime\<close> is a double; a playback state
  is kept as the integer value of its enumerator (the enumeration is declared in the
  engine's headers).
\<close>

type_synonym AmEntityID = AmUInt64
type_synonym AmChannelID = AmUInt64
type_synonym AmListenerID = AmUInt64
type_synonym AmEnvironmentID = AmUInt64
type_synonym AmTime = AmReal64
type_synonym eChannelPlaybackState = int

record ProfilerEngineData = ProfilerDataSnapshot +
  mIsInitialized :: bool
  mEngineUptime :: AmReal64
  mConfigFile :: string
  mTotalEntityCount :: AmUInt32
  mActiveEntityCount :: AmUInt32
  mTotalChannelCount :: AmUInt32
  mActiveChannelCount :: AmUInt32
  mTotalListenerCount :: AmUInt32
  mActiveListenerCount :: AmUInt32
  mTotalEnvironmentCount :: AmUInt32
  mActiveEnvironmentCount :: AmUInt32
  mTotalRoomCount :: AmUInt32
  mActiveRoomCount :: AmUInt32
  mCpuUsagePercent :: AmReal32
  mMemoryUsageBytes :: AmUInt64
  mMemoryPeakBytes :: AmUInt64
  mActiveVoiceCount :: AmUInt32
  mMaxVoiceCount :: AmUInt32
  mSampleRate :: AmUInt32
  mChannelCount :: AmUInt16
  mFrameCount :: AmUInt16
  mMasterGain :: AmReal32
  mLoadedSoundBanks :: "string list"
  mLoadedPlugins :: "string list"
  mAssetCounts :: "(string \<times> AmUInt32) list"

record ProfilerEntityData = ProfilerDataSnapshot +
  mEntityId :: AmEntityID
  mPosition :: AmVector3
  mLastPosition :: AmVector3
  mVelocity :: AmVector3
  mForward :: AmVector3
  mUp :: AmVector3
  mActiveChannelCount :: AmUInt32
  mDistanceToListener :: AmReal32
  mObstruction :: AmReal32
  mOcclusion :: AmReal32
  mDirectivity :: AmReal32
  mDirectivitySharpness :: AmReal32
  mAzimuth :: AmReal32
  mElevation :: AmReal32
  mAttenuationFactor :: AmReal32
  mChannelIds :: "AmChannelID list"
  mEnvironmentEffects :: "(AmEnvironmentID \<times> AmReal32) list"

record ProfilerChannelData = ProfilerDataSnapshot +
  mChannelId :: AmChannelID
  mPlaybackState :: eChannelPlaybackState
  mSourceEntityId :: AmEntityID
  mSoundName :: string
  mSoundBankName :: string
  mCollectionName :: string
  mPlaybackPosition :: AmTime
  mTotalDuration :: AmTime
  mLoopCount :: AmUInt32
  mCurrentLoop :: AmUInt32
  mGain :: AmReal32
  mPosition :: AmVector3
  mDistanceToListener :: AmReal32
  mDopplerFactor :: AmReal32
  mOcclusionFactor :: AmReal32
  mObstructionFactor :: AmReal32
  mActiveEffects :: "string list"
  mEffectParameters :: "(string \<times> AmReal32) list"

record ProfilerListenerData = ProfilerDataSnapshot +
  mListenerId :: AmListenerID
  mPosition :: AmVector3
  mLastPosition :: AmVector3
  mVelocity :: AmVector3
  mForward :: AmVector3
  mUp :: AmVector3
  mGain :: AmReal32
  mCurrentEnvironment :: string
  mEnvironmentParameters :: "(string \<times> AmReal32) list"

record ProfilerPerformanceData = ProfilerDataSnapshot +
  mTotalCpuUsage :: AmReal32
  mMixerCpuUsage :: AmReal32
  mDspCpuUsage :: AmReal32
  mStreamingCpuUsage :: AmReal32
  mTotalAllocatedMemory :: AmUInt64
  mEngineMemory :: AmUInt64
  mAudioBufferMemory :: AmUInt64
  mAssetMemory :: AmUInt64
  mProcessedSamples :: AmUInt32
  mUnderruns :: AmUInt32
  mOverruns :: AmUInt32
  mLatencyMs :: AmReal32
  mActiveThreadCount :: AmUInt32
  mThreadCpuUsage :: "(string \<times> AmReal32) list"

record ProfilerEvent = ProfilerDataSnapshot +
  mEventName :: string
  mDescription :: string
  mParameters :: "(string \<times> string) list"

text \<open>\<open>ProfilerDataVariant\<close>, the \<open>std::variant\<close> over the six kinds.\<close>

datatype ProfilerDataVariant =
  EngineData ProfilerEngineData
| EntityData ProfilerEntityData
| ChannelData ProfilerChannelData
| ListenerData ProfilerListenerData
| PerformanceData ProfilerPerformanceData
| EventData ProfilerEvent

section \<open>ProfilerMessageQueue (Messaging.cpp)\<close>

text \<open>
  The queue object: \<open>_queue\<close> is a \<open>std::queue\<close> whose front is the head of the list,
  \<open>_maxSize\<close>, \<open>_currentSize\<close> and \<open>_droppedMessages\<close> are \<open>AmSize\<close> values (the last
  two atomics). Every method body runs between \<open>LockMutex\<close> and \<open>UnlockMutex\<close> of the
  queue's own mutex, so each method is one atomic step on this record.
\<close>

record 'a ProfilerMessageQueue =
  mq_queue :: "'a list"
  mq_maxSize :: AmSize
  mq_currentSize :: AmSize
  mq_droppedMessages :: AmSize

definition ProfilerMessageQueue_new :: "AmSize \<Rightarrow> 'a ProfilerMessageQueue" where
  "ProfilerMessageQueue_new maxSize =
     \<lparr>mq_queue = [], mq_maxSize = maxSize, mq_currentSize = 0, mq_droppedMessages = 0\<rparr>"

definition PushMessage :: "'a ProfilerMessageQueue \<Rightarrow> 'a \<Rightarrow> bool \<times> 'a ProfilerMessageQueue" where
  "PushMessage q message =
     (if unat (mq_maxSize q) \<le> length (mq_queue q)
      then (False, q\<lparr>mq_droppedMessages := mq_droppedMessages q + 1\<rparr>)
      else (let queue' = mq_queue q @ [message]
            in (True, q\<lparr>mq_queue := queue', mq_currentSize := of_nat (length queue')\<rparr>)))"

definition PopMessage :: "'a ProfilerMessageQueue \<Rightarrow> 'a option \<times> 'a ProfilerMessageQueue" where
  "PopMessage q =
     (case mq_queue q of
        [] \<Rightarrow> (None, q)
      | message # queue' \<Rightarrow>
          (Some message, q\<lparr>mq_queue := queue', mq_currentSize := of_nat (length queue')\<rparr>))"

text \<open>
  The \<open>while (!_queue.empty() && count < maxCount)\<close> loop of \<open>PopMessages\<close>: the arguments
  are the queue, the vector \<open>messages\<close> built so far and the counter \<open>count\<close>.
\<close>

fun PopMessages_loop :: "'a list \<Rightarrow> 'a list \<Rightarrow> AmSize \<Rightarrow> AmSize \<Rightarrow> 'a list \<times> 'a list" where
  "PopMessages_loop [] messages count maxCount = ([], messages)"
| "PopMessages_loop (front # rest) messages count maxCount =
     (if count < maxCount
      then PopMessages_loop rest (messages @ [front]) (count + 1) maxCount
      else (front # rest, messages))"

text \<open>
  \<open>PopMessages\<close> begins with \<open>messages.reserve(maxCount)\<close> on the empty result vector,
  before it takes the mutex. \<open>reserve\<close> throws \<open>std::length_error\<close> when the count is
  above the vector's \<open>max_size()\<close>; otherwise, for a count above the capacity 0, it
  allocates, and the allocator throws \<open>std::bad_alloc\<close> when it cannot. What the
  standard library fixes here is a parameter: the vector's \<open>max_size()\<close> and whether
  an allocation for a given number of elements succeeds.
\<close>

record vector_env =
  vec_max_size :: nat
  vec_alloc_ok :: "nat \<Rightarrow> bool"

datatype vector_error = length_error | bad_alloc

definition reserve :: "vector_env \<Rightarrow> AmSize \<Rightarrow> vector_error option" where
  "reserve env n =
     (if vec_max_size env < unat n then Some length_error
      else if 0 < unat n \<and> \<not> vec_alloc_ok env (unat n) then Some bad_alloc
      else None)"

text \<open>
  \<open>PopMessages\<close>: when \<open>reserve\<close> throws, the exception leaves the function before the
  mutex is taken, and the queue is as it was. After the reservation the loop's
  \<open>push_back\<close> calls stay within the reserved capacity.
\<close>

definition PopMessages :: "vector_env \<Rightarrow> 'a ProfilerMessageQueue \<Rightarrow> AmSize \<Rightarrow> (vector_error + 'a list) \<times> 'a ProfilerMessageQueue" where
  "PopMessages env q maxCount =
     (case reserve env maxCount of
        Some e \<Rightarrow> (Inl e, q)
      | None \<Rightarrow>
          (case PopMessages_loop (mq_queue q) [] 0 maxCount of
             (queue', messages) \<Rightarrow>
               (Inr messages, q\<lparr>mq_queue := queue', mq_currentSize := of_nat (length queue')\<rparr>)))"

text \<open>
  The most generous standard library: \<open>max_size()\<close> is the largest \<open>ptrdiff_t\<close>, which
  no implementation exceeds, and no allocation fails.
\<close>

definition generous_vector_env :: vector_env where
  "generous_vector_env = \<lparr>vec_max_size = 2 ^ 63 - 1, vec_alloc_ok = (\<lambda>n. True)\<rparr>"

definition Size :: "'a ProfilerMessageQueue \<Rightarrow> AmSize" where
  "Size q = mq_currentSize q"

definition Empty :: "'a ProfilerMessageQueue \<Rightarrow> bool" where
  "Empty q = (mq_currentSize q = 0)"

definition Clear :: "'a ProfilerMessageQueue \<Rightarrow> 'a ProfilerMessageQueue" where
  "Clear q = q\<lparr>mq_queue := [], mq_currentSize := 0\<rparr>"

subsection \<open>Driving the queue with a sequence of calls\<close>

text \<open>
  A sequence of method calls on one queue and the value each call returns, or the
  exception it throws. Since every method holds the queue's mutex for all it does to
  the queue, any interleaving of calls from several threads is such a sequence.
\<close>

datatype 'a queue_op = OpPush 'a | OpPop | OpPopMessages AmSize | OpClear

datatype 'a queue_out =
  OutPush bool | OutPop "'a option" | OutPopMessages "vector_error + 'a list" | OutClear

fun queue_step :: "vector_env \<Rightarrow> 'a ProfilerMessageQueue \<Rightarrow> 'a queue_op \<Rightarrow> 'a queue_out \<times> 'a ProfilerMessageQueue" where
  "queue_step env q (OpPush message) = (case PushMessage q message of (r, q') \<Rightarrow> (OutPush r, q'))"
| "queue_step env q OpPop = (case PopMessage q of (r, q') \<Rightarrow> (OutPop r, q'))"
| "queue_step env q (OpPopMessages maxCount) =
     (case PopMessages env q maxCount of (r, q') \<Rightarrow> (OutPopMessages r, q'))"
| "queue_step env q OpClear = (OutClear, Clear q)"

fun queue_run :: "vector_env \<Rightarrow> 'a ProfilerMessageQueue \<Rightarrow> 'a queue_op list \<Rightarrow> 'a queue_out list \<times> 'a ProfilerMessageQueue" where
  "queue_run env q [] = ([], q)"
| "queue_run env q (c # cs) =
     (case queue_step env q c of (out, q') \<Rightarrow>
        (case queue_run env q' cs of (outs, q'') \<Rightarrow> (out # outs, q'')))"


text \<open>The messages whose push returned true, in push order.\<close>

fun accepted_pushes :: "'a queue_op list \<Rightarrow> 'a queue_out list \<Rightarrow> 'a list" where
  "accepted_pushes (OpPush message # cs) (OutPush True # outs) = message # accepted_pushes cs outs"
| "accepted_pushes (c # cs) (out # outs) = accepted_pushes cs outs"
| "accepted_pushes cs outs = []"

text \<open>The messages returned by \<open>PopMessage\<close> and \<open>PopMessages\<close>, in the order returned.\<close>

fun popped_messages :: "'a queue_out list \<Rightarrow> 'a list" where
  "popped_messages [] = []"
| "popped_messages (OutPop (Some message) # outs) = message # popped_messages outs"
| "popped_messages (OutPopMessages (Inr messages) # outs) = messages @ popped_messages outs"
| "popped_messages (out # outs) = popped_messages outs"

section \<open>The wire encoder (Server.cpp)\<close>

text \<open>
  A \<open>Json::Value\<close> of the JSON library: null, a boolean, a signed or unsigned integer, a
  double, a string, an array, or an object (its members as an association list with
  one entry per key).
\<close>

datatype Json =
  JNull | JBool bool | JInt int | JUInt nat | JReal ieee_float | JString string
| JArray "Json list" | JObject "(string \<times> Json) list"

text \<open>
  \<open>root[key] = value\<close>: a null value becomes an object, an object gets or replaces the
  member, and on any other value the library raises a logic error (\<open>None\<close>).
\<close>

fun json_assign :: "Json \<Rightarrow> string \<Rightarrow> Json \<Rightarrow> Json option" where
  "json_assign JNull key v = Some (JObject [(key, v)])"
| "json_assign (JObject members) key v = Some (JObject (AList.update key v members))"
| "json_assign other key v = None"

text \<open>\<open>value.append(v)\<close>: a null value becomes an array; an error on anything but an array.\<close>

fun json_append :: "Json \<Rightarrow> Json \<Rightarrow> Json option" where
  "json_append JNull v = Some (JArray [v])"
| "json_append (JArray elements) v = Some (JArray (elements @ [v]))"
| "json_append other v = None"

text \<open>Reading a member of an object.\<close>

fun json_member :: "Json \<Rightarrow> string \<Rightarrow> Json option" where
  "json_member (JObject members) key = map_of members key"
| "json_member other key = None"

text \<open>
  The statements of the encoder: \<open>root[key] = value\<close> and \<open>root[key].append(value)\<close>;
  the latter first reads \<open>root[key]\<close>, which adds a null member if there is none.
\<close>

datatype json_stmt = Assign string Json | Append string Json

fun json_exec :: "json_stmt \<Rightarrow> Json \<Rightarrow> Json option" where
  "json_exec (Assign key v) doc = json_assign doc key v"
| "json_exec (Append key v) doc =
     (case json_append (case json_member doc key of None \<Rightarrow> JNull | Some member \<Rightarrow> member) v of
        None \<Rightarrow> None
      | Some member' \<Rightarrow> json_assign doc key member')"

fun json_run :: "json_stmt list \<Rightarrow> Json \<Rightarrow> Json option" where
  "json_run [] doc = Some doc"
| "json_run (stmt # stmts) doc =
     (case json_exec stmt doc of None \<Rightarrow> None | Some doc' \<Rightarrow> json_run stmts doc')"

text \<open>
  \<open>duration_cast<microseconds>(t.time_since_epoch()).count()\<close>: the count of
  nanoseconds divided by 1000, truncated towards zero.
\<close>

definition microseconds_since_epoch :: "ProfilerTime \<Rightarrow> int" where
  "microseconds_since_epoch t = (if 0 \<le> t then t div 1000 else - ((- t) div 1000))"

text \<open>The four members every kind starts with.\<close>

definition base_stmts :: "'a ProfilerDataSnapshot_scheme \<Rightarrow> json_stmt list" where
  "base_stmts arg =
     [Assign ''timestamp'' (JUInt (unat (word_of_int (microseconds_since_epoch (mTimestamp arg)) :: AmUInt64))),
      Assign ''messageId'' (JUInt (unat (mMessageId arg))),
      Assign ''category'' (JInt (sint (category_bits (mCategory arg)))),
      Assign ''priority'' (JInt (uint (priority_value (mPriority arg))))]"

definition vector_stmts :: "string \<Rightarrow> AmVector3 \<Rightarrow> json_stmt list" where
  "vector_stmts key v =
     [Assign key (JArray []), Append key (JReal (v0 v)), Append key (JReal (v1 v)),
      Append key (JReal (v2 v))]"

text \<open>The branch of the visitor for each kind, statement by statement.\<close>

definition engine_stmts :: "ProfilerEngineData \<Rightarrow> json_stmt list" where
  "engine_stmts arg =
     [Assign ''type'' (JString ''engine''),
      Assign ''isInitialized'' (JBool (mIsInitialized arg)),
      Assign ''engineUptime'' (JReal (mEngineUptime arg)),
      Assign ''configFile'' (JString (mConfigFile arg)),
      Assign ''totalEntityCount'' (JUInt (unat (mTotalEntityCount arg))),
      Assign ''activeEntityCount'' (JUInt (unat (mActiveEntityCount arg))),
      Assign ''totalChannelCount'' (JUInt (unat (mTotalChannelCount arg))),
      Assign ''activeChannelCount'' (JUInt (unat (ProfilerEngineData.mActiveChannelCount arg))),
      Assign ''totalListenerCount'' (JUInt (unat (mTotalListenerCount arg))),
      Assign ''activeListenerCount'' (JUInt (unat (mActiveListenerCount arg))),
      Assign ''cpuUsagePercent'' (JReal (mCpuUsagePercent arg)),
      Assign ''memoryUsageBytes'' (JUInt (unat (mMemoryUsageBytes arg))),
      Assign ''activeVoiceCount'' (JUInt (unat (mActiveVoiceCount arg))),
      Assign ''maxVoiceCount'' (JUInt (unat (mMaxVoiceCount arg))),
      Assign ''sampleRate'' (JUInt (unat (mSampleRate arg))),
      Assign ''masterGain'' (JReal (mMasterGain arg))]"

definition entity_stmts :: "ProfilerEntityData \<Rightarrow> json_stmt list" where
  "entity_stmts arg =
     [Assign ''type'' (JString ''entity''),
      Assign ''entityId'' (JUInt (unat (mEntityId arg)))]
     @ vector_stmts ''position'' (ProfilerEntityData.mPosition arg)
     @ vector_stmts ''velocity'' (ProfilerEntityData.mVelocity arg)
     @ [Assign ''activeChannelCount'' (JUInt (unat (ProfilerEntityData.mActiveChannelCount arg))),
        Assign ''distanceToListener'' (JReal (ProfilerEntityData.mDistanceToListener arg)),
        Assign ''obstruction'' (JReal (mObstruction arg)),
        Assign ''occlusion'' (JReal (mOcclusion arg))]"

definition channel_stmts :: "ProfilerChannelData \<Rightarrow> json_stmt list" where
  "channel_stmts arg =
     [Assign ''type'' (JString ''channel''),
      Assign ''channelId'' (JUInt (unat (mChannelId arg))),
      Assign ''playbackState'' (JInt (mPlaybackState arg)),
      Assign ''sourceEntityId'' (JUInt (unat (mSourceEntityId arg))),
      Assign ''soundName'' (JString (mSoundName arg)),
      Assign ''gain'' (JReal (ProfilerChannelData.mGain arg)),
      Assign ''distanceToListener'' (JReal (ProfilerChannelData.mDistanceToListener arg))]"

definition listener_stmts :: "ProfilerListenerData \<Rightarrow> json_stmt list" where
  "listener_stmts arg =
     [Assign ''type'' (JString ''listener''),
      Assign ''listenerId'' (JUInt (unat (mListenerId arg)))]
     @ vector_stmts ''position'' (ProfilerListenerData.mPosition arg)
     @ [Assign ''gain'' (JReal (ProfilerListenerData.mGain arg)),
        Assign ''currentEnvironment'' (JString (mCurrentEnvironment arg))]"

definition performance_stmts :: "ProfilerPerformanceData \<Rightarrow> json_stmt list" where
  "performance_stmts arg =
     [Assign ''type'' (JString ''performance''),
      Assign ''totalCpuUsage'' (JReal (mTotalCpuUsage arg)),
      Assign ''mixerCpuUsage'' (JReal (mMixerCpuUsage arg)),
      Assign ''dspCpuUsage'' (JReal (mDspCpuUsage arg)),
      Assign ''totalAllocatedMemory'' (JUInt (unat (mTotalAllocatedMemory arg))),
      Assign ''engineMemory'' (JUInt (unat (mEngineMemory arg))),
      Assign ''processedSamples'' (JUInt (unat (mProcessedSamples arg))),
      Assign ''latencyMs'' (JReal (mLatencyMs arg))]"

text \<open>
  The event branch builds \<open>params\<close> with one assignment per entry of \<open>mParameters\<close>
  before it assigns it to the root.
\<close>

definition event_params :: "ProfilerEvent \<Rightarrow> Json option" where
  "event_params arg = json_run (map (\<lambda>(name, v). Assign name (JString v)) (mParameters arg)) JNull"

definition event_stmts :: "ProfilerEvent \<Rightarrow> Json \<Rightarrow> json_stmt list" where
  "event_stmts arg params =
     [Assign ''type'' (JString ''event''),
      Assign ''eventName'' (JString (mEventName arg)),
      Assign ''description'' (JString (mDescription arg)),
      Assign ''parameters'' params]"

text \<open>The document that the visitor leaves in \<open>root\<close>, or \<open>None\<close> if a statement raises.\<close>

fun serialize_root :: "ProfilerDataVariant \<Rightarrow> Json option" where
  "serialize_root (EngineData arg) = json_run (base_stmts arg @ engine_stmts arg) JNull"
| "serialize_root (EntityData arg) = json_run (base_stmts arg @ entity_stmts arg) JNull"
| "serialize_root (ChannelData arg) = json_run (base_stmts arg @ channel_stmts arg) JNull"
| "serialize_root (ListenerData arg) = json_run (base_stmts arg @ listener_stmts arg) JNull"
| "serialize_root (PerformanceData arg) = json_run (base_stmts arg @ performance_stmts arg) JNull"
| "serialize_root (EventData arg) =
     (case event_params arg of
        None \<Rightarrow> None
      | Some params \<Rightarrow> json_run (base_stmts arg @ event_stmts arg params) JNull)"

text \<open>
  \<open>_serializeProfilerData\<close>: the document, written as text by the library's
  \<open>Json::writeString\<close>, which is a parameter here.
\<close>

definition serializeProfilerData :: "(Json \<Rightarrow> string) \<Rightarrow> ProfilerDataVariant \<Rightarrow> string option" where
  "serializeProfilerData writeString data = map_option writeString (serialize_root data)"

text \<open>The type discriminator of a document: its member \<open>type\<close>, if that is a string.\<close>

definition json_type :: "Json \<Rightarrow> string option" where
  "json_type doc = (case json_member doc ''type'' of Some (JString tag) \<Rightarrow> Some tag | _ \<Rightarrow> None)"

text \<open>
  The discriminator that the specification gives each kind: one of \<open>engine\<close>,
  \<open>entity\<close>, \<open>channel\<close>, \<open>listener\<close>, \<open>performance\<close>, \<open>event\<close>.
\<close>

fun spec_kind_tag :: "ProfilerDataVariant \<Rightarrow> string" where
  "spec_kind_tag (EngineData arg) = ''engine''"
| "spec_kind_tag (EntityData arg) = ''entity''"
| "spec_kind_tag (ChannelData arg) = ''channel''"
| "spec_kind_tag (ListenerData arg) = ''listener''"
| "spec_kind_tag (PerformanceData arg) = ''performance''"
| "spec_kind_tag (EventData arg) = ''event''"

text \<open>
  A small writer and reader to put in the place of the library's: the writer writes
  only the discriminator of a document, as \<open>type=tag\<close>, or nothing if there is none;
  the reader takes the discriminator out of such a text.
\<close>

definition type_only_writer :: "Json \<Rightarrow> string" where
  "type_only_writer doc = (case json_type doc of None \<Rightarrow> [] | Some tag \<Rightarrow> ''type='' @ tag)"

definition type_only_reader :: "string \<Rightarrow> string option" where
  "type_only_reader text = (if take 5 text = ''type='' then Some (drop 5 text) else None)"

section \<open>ProfilerServer (Server.h, Server.cpp)\<close>

text \<open>
  A \<open>SocketHandle\<close> is an untyped pointer to the transport library's connection object;
  \<open>AM_INVALID_SOCKET\<close> is the null pointer.
\<close>

type_synonym SocketHandle = nat

definition AM_INVALID_SOCKET :: SocketHandle where
  "AM_INVALID_SOCKET = 0"

record ProfilerClientInfo =
  mClientId :: ProfilerClientID
  mSocket :: SocketHandle
  mAddress :: string
  mPort :: AmUInt16
  mConnectedTime :: ProfilerTime
  mMessagesSent :: AmUInt64
  mBytesTransmitted :: AmUInt64
  mIsConnected :: bool

record ServerStatistics =
  mTotalConnections :: AmUInt32
  mActiveConnections :: AmUInt32
  mTotalDisconnections :: AmUInt32
  mTotalMessagesSent :: AmUInt64
  mTotalBytesTransmitted :: AmUInt64
  mFailedSends :: AmUInt32
  mAverageMessageSize :: AmReal32
  mServerStartTime :: ProfilerTime

text \<open>
  The server object. \<open>sv_clients\<close> is the table \<open>_clients\<close>, an unordered map kept as an
  association list with one entry per key. A callback field says whether the
  \<open>std::function\<close> holds a target. \<open>sv_gSocket\<close> and \<open>sv_gLoop\<close> are the file's static
  \<open>gSocket\<close> and \<open>gLoop\<close> (whether they are non-null), and \<open>sv_userData\<close> is the
  \<open>WebSocketUserData\<close> that the transport keeps for each connection. The map
  \<open>_clientThreads\<close> is left out: nothing ever inserts into it.
\<close>

record ProfilerServer =
  sv_running :: bool
  sv_initialized :: bool
  sv_serverSocket :: SocketHandle
  sv_port :: AmUInt16
  sv_bindAddress :: string
  sv_maxClients :: AmUInt32
  sv_acceptThread :: bool
  sv_clients :: "(ProfilerClientID \<times> ProfilerClientInfo) list"
  sv_nextClientId :: ProfilerClientID
  sv_statistics :: ServerStatistics
  sv_onClientConnected :: bool
  sv_onClientDisconnected :: bool
  sv_onMessageReceived :: bool
  sv_onError :: bool
  sv_gSocket :: bool
  sv_gLoop :: bool
  sv_userData :: "SocketHandle \<Rightarrow> ProfilerClientID"

text \<open>
  What a server method does besides changing the server object: taking and releasing
  the three mutexes, invoking a registered callback, and calling into the transport
  (closing a connection at once, or deferring a send or a close to the event loop).
  \<open>InvalidIteratorErase\<close> marks an \<open>erase\<close> through an iterator whose element has
  already been erased. A mutex taken again by the thread that holds it appears as a
  second \<open>Lock\<close>.
\<close>

datatype mutex = ClientsMutex | StatisticsMutex | CallbacksMutex

datatype callback = OnClientConnected | OnClientDisconnected | OnMessageReceived | OnError

datatype event =
  Lock mutex | Unlock mutex | Invoke callback
| CloseSocket SocketHandle | DeferSend SocketHandle string | DeferClose SocketHandle
| InvalidIteratorErase

definition Statistics_zero :: "ProfilerTime \<Rightarrow> ServerStatistics" where
  "Statistics_zero now =
     \<lparr>mTotalConnections = 0, mActiveConnections = 0, mTotalDisconnections = 0,
      mTotalMessagesSent = 0, mTotalBytesTransmitted = 0, mFailedSends = 0,
      mAverageMessageSize = Finite 0, mServerStartTime = now\<rparr>"

definition ProfilerServer_new :: "ProfilerTime \<Rightarrow> ProfilerServer" where
  "ProfilerServer_new now =
     \<lparr>sv_running = False, sv_initialized = False, sv_serverSocket = AM_INVALID_SOCKET,
      sv_port = 0, sv_bindAddress = ''127.0.0.1'', sv_maxClients = 8, sv_acceptThread = False,
      sv_clients = [], sv_nextClientId = 1, sv_statistics = Statistics_zero now,
      sv_onClientConnected = False, sv_onClientDisconnected = False,
      sv_onMessageReceived = False, sv_onError = False,
      sv_gSocket = False, sv_gLoop = False, sv_userData = (\<lambda>ws. 0)\<rparr>"

text \<open>
  What \<open>Start\<close> cannot decide by itself: whether the transport's application object could
  be allocated and whether the accept thread could be created; and for a send, whether
  \<open>_sendToSocket\<close> reports success for that connection and message.
\<close>

record server_env =
  alloc_ok :: bool
  thread_ok :: bool
  send_ok :: "SocketHandle \<Rightarrow> string \<Rightarrow> bool"

definition initializeNetworking :: "server_env \<Rightarrow> ProfilerServer \<Rightarrow> bool \<times> ProfilerServer" where
  "initializeNetworking env s = (alloc_ok env, s\<lparr>sv_gSocket := alloc_ok env\<rparr>)"

definition cleanupNetworking :: "ProfilerServer \<Rightarrow> ProfilerServer" where
  "cleanupNetworking s = s\<lparr>sv_gSocket := False, sv_gLoop := False\<rparr>"

text \<open>
  \<open>Start\<close>. \<open>_createServerSocket\<close> only registers the handlers below and returns true,
  \<open>_bindAndListen\<close> returns true, \<open>_closeServerSocket\<close> closes the listen socket. The
  flag \<open>_running\<close> is set by the accept thread, not by \<open>Start\<close>.
\<close>

definition Start :: "server_env \<Rightarrow> ProfilerServer \<Rightarrow> AmUInt16 \<Rightarrow> string \<Rightarrow> AmUInt32 \<Rightarrow> bool \<times> ProfilerServer" where
  "Start env s port bindAddress maxClients =
     (if sv_running s then (True, s)
      else
        (let s1 = s\<lparr>sv_port := port, sv_bindAddress := bindAddress, sv_maxClients := maxClients\<rparr>
         in case initializeNetworking env s1 of
              (ok, s2) \<Rightarrow>
                if \<not> ok then (False, s2)
                else
                  (let s3 = s2\<lparr>sv_gLoop := True\<rparr>
                   in if \<not> thread_ok env
                      then (False, cleanupNetworking (s3\<lparr>sv_running := False\<rparr>))
                      else (True, s3\<lparr>sv_acceptThread := True, sv_initialized := True\<rparr>))))"

text \<open>The accept thread: it sets \<open>_running\<close>, runs the event loop, and clears \<open>_running\<close>.\<close>

definition acceptThread_enter :: "ProfilerServer \<Rightarrow> ProfilerServer" where
  "acceptThread_enter s = (if sv_gSocket s then s\<lparr>sv_running := True\<rparr> else s)"

definition acceptThread_exit :: "ProfilerServer \<Rightarrow> ProfilerServer" where
  "acceptThread_exit s = (if sv_gSocket s then s\<lparr>sv_running := False\<rparr> else s)"

definition GetClientCount :: "ProfilerServer \<Rightarrow> AmUInt32" where
  "GetClientCount s = of_nat (length (sv_clients s))"

definition GetMaxClients :: "ProfilerServer \<Rightarrow> AmUInt32" where
  "GetMaxClients s = sv_maxClients s"

definition generateClientId :: "ProfilerServer \<Rightarrow> ProfilerClientID \<times> ProfilerServer" where
  "generateClientId s = (sv_nextClientId s, s\<lparr>sv_nextClientId := sv_nextClientId s + 1\<rparr>)"

text \<open>
  \<open>_triggerEvent\<close> runs the function it is given if that function is not empty. Every
  function passed to it has the same shape: take the callbacks mutex, invoke the
  registered callback if there is one, release the mutex.
\<close>

definition triggerEvent :: "event list option \<Rightarrow> event list" where
  "triggerEvent eventFunction = (case eventFunction of None \<Rightarrow> [] | Some body \<Rightarrow> body)"

definition callback_body :: "bool \<Rightarrow> callback \<Rightarrow> event list" where
  "callback_body registered cb =
     [Lock CallbacksMutex] @ (if registered then [Invoke cb] else []) @ [Unlock CallbacksMutex]"

text \<open>
  \<open>_addClient\<close>. On the rejecting path \<open>ws->close()\<close> is the last thing the method
  does, with no mutex held; the close handler that the transport runs for that
  connection is the event \<open>EvClose\<close> of the connection, which follows in the sequence.
\<close>

definition addClient :: "ProfilerTime \<Rightarrow> ProfilerServer \<Rightarrow> SocketHandle \<Rightarrow> string \<Rightarrow> AmUInt16 \<Rightarrow> ProfilerServer \<times> event list" where
  "addClient now s clientSocket address port =
     (let clientId = (if clientSocket \<noteq> AM_INVALID_SOCKET then sv_userData s clientSocket else 0)
      in if unat (sv_maxClients s) \<le> length (sv_clients s)
         then (s, [Lock ClientsMutex, Unlock ClientsMutex]
                  @ (if clientSocket \<noteq> AM_INVALID_SOCKET then [CloseSocket clientSocket] else []))
         else
           (let info = \<lparr>mClientId = clientId, mSocket = clientSocket, mAddress = address,
                        mPort = port, mConnectedTime = now, mMessagesSent = 0,
                        mBytesTransmitted = 0, mIsConnected = True\<rparr>;
                s1 = s\<lparr>sv_clients := AList.update clientId info (sv_clients s)\<rparr>;
                s2 = s1\<lparr>sv_statistics := (sv_statistics s1)
                        \<lparr>mTotalConnections := mTotalConnections (sv_statistics s1) + 1,
                         mActiveConnections := of_nat (length (sv_clients s1))\<rparr>\<rparr>
            in (s2, [Lock ClientsMutex, Unlock ClientsMutex, Lock StatisticsMutex, Unlock StatisticsMutex]
                    @ triggerEvent (Some (callback_body (sv_onClientConnected s2) OnClientConnected)))))"

text \<open>The handlers that \<open>_createServerSocket\<close> registers with the transport.\<close>

definition on_open :: "ProfilerTime \<Rightarrow> ProfilerServer \<Rightarrow> SocketHandle \<Rightarrow> string \<Rightarrow> ProfilerServer \<times> event list" where
  "on_open now s ws remoteAddr =
     (case generateClientId s of
        (clientId, s1) \<Rightarrow>
          addClient now (s1\<lparr>sv_userData := (sv_userData s1)(ws := clientId)\<rparr>) ws remoteAddr 0)"

definition on_message :: "ProfilerServer \<Rightarrow> SocketHandle \<Rightarrow> string \<Rightarrow> ProfilerServer \<times> event list" where
  "on_message s ws message =
     (s, triggerEvent (Some (callback_body (sv_onMessageReceived s) OnMessageReceived)))"

definition on_close :: "ProfilerServer \<Rightarrow> SocketHandle \<Rightarrow> ProfilerServer \<times> event list" where
  "on_close s ws =
     (let clientId = sv_userData s ws
      in case map_of (sv_clients s) clientId of
           Some clientInfo \<Rightarrow>
             (let s1 = s\<lparr>sv_clients := AList.delete clientId (sv_clients s)\<rparr>;
                  s2 = s1\<lparr>sv_statistics := (sv_statistics s1)
                          \<lparr>mTotalDisconnections := mTotalDisconnections (sv_statistics s1) + 1,
                           mActiveConnections := of_nat (length (sv_clients s1))\<rparr>\<rparr>
              in (s2, [Lock ClientsMutex, Unlock ClientsMutex, Lock StatisticsMutex, Unlock StatisticsMutex]
                      @ triggerEvent (Some (callback_body (sv_onClientDisconnected s2) OnClientDisconnected))))
         | None \<Rightarrow> (s, [Lock ClientsMutex, Unlock ClientsMutex]))"

definition on_listen_failed :: "ProfilerServer \<Rightarrow> ProfilerServer \<times> event list" where
  "on_listen_failed s = (s, triggerEvent (Some (callback_body (sv_onError s) OnError)))"

text \<open>
  \<open>_removeClient\<close> calls \<open>ws->close()\<close>. The transport closes the connection and
  runs the close handler registered for it, \<open>on_close\<close> above, before \<open>close()\<close>
  returns: the handler's steps are part of the caller's.
\<close>

definition ws_close :: "ProfilerServer \<Rightarrow> SocketHandle \<Rightarrow> ProfilerServer \<times> event list" where
  "ws_close s ws = (case on_close s ws of (s', events) \<Rightarrow> (s', CloseSocket ws # events))"

definition removeClient :: "ProfilerServer \<Rightarrow> SocketHandle \<Rightarrow> ProfilerServer \<times> event list" where
  "removeClient s clientSocket =
     (if clientSocket = AM_INVALID_SOCKET then (s, []) else ws_close s clientSocket)"

text \<open>
  \<open>DisconnectClient\<close> finds the entry, closes its socket through \<open>_removeClient\<close>
  while it holds the clients mutex, and only then erases the entry through the iterator
  it found. If the close handler has erased that entry meanwhile, the iterator is
  invalid and the erase has undefined behaviour; the trace records this, and the method
  goes on here with the table as the handler left it.
\<close>

definition DisconnectClient :: "ProfilerServer \<Rightarrow> ProfilerClientID \<Rightarrow> bool \<times> ProfilerServer \<times> event list" where
  "DisconnectClient s clientId =
     (case map_of (sv_clients s) clientId of
        None \<Rightarrow> (False, s, [Lock ClientsMutex, Unlock ClientsMutex])
      | Some clientInfo \<Rightarrow>
          (case removeClient s (mSocket clientInfo) of
             (s0, closing) \<Rightarrow>
               (let erasing = (if map_of (sv_clients s0) clientId = None
                               then [InvalidIteratorErase] else []);
                    s1 = s0\<lparr>sv_clients := AList.delete clientId (sv_clients s0)\<rparr>;
                    s2 = s1\<lparr>sv_statistics := (sv_statistics s1)
                            \<lparr>mTotalDisconnections := mTotalDisconnections (sv_statistics s1) + 1,
                             mActiveConnections := of_nat (length (sv_clients s1))\<rparr>\<rparr>
                in (True, s2,
                    [Lock ClientsMutex] @ closing @ erasing
                    @ [Unlock ClientsMutex, Lock StatisticsMutex, Unlock StatisticsMutex]
                    @ triggerEvent (Some (callback_body (sv_onClientDisconnected s2) OnClientDisconnected))))))"

definition disconnectAllClients :: "ProfilerServer \<Rightarrow> ProfilerServer \<times> event list" where
  "disconnectAllClients s =
     (let socketsToClose =
            map mSocket (filter (\<lambda>c. mIsConnected c \<and> mSocket c \<noteq> AM_INVALID_SOCKET)
                           (map snd (sv_clients s)))
      in (s\<lparr>sv_clients := []\<rparr>,
          [Lock ClientsMutex, Unlock ClientsMutex]
          @ (if sv_gLoop s then map DeferClose socketsToClose else [])))"

definition Stop :: "ProfilerServer \<Rightarrow> ProfilerServer \<times> event list" where
  "Stop s =
     (if \<not> sv_running s then (s, [])
      else
        (case disconnectAllClients (s\<lparr>sv_running := False\<rparr>) of
           (s1, events) \<Rightarrow>
             ((cleanupNetworking s1)\<lparr>sv_acceptThread := False, sv_initialized := False\<rparr>, events)))"

text \<open>
  \<open>_updateStatistics\<close>; the average is the exact quotient of the two counters.
\<close>

definition updateStatistics :: "ServerStatistics \<Rightarrow> AmSize \<Rightarrow> ServerStatistics" where
  "updateStatistics st messageSize =
     (let st1 = st\<lparr>mTotalMessagesSent := mTotalMessagesSent st + 1,
                    mTotalBytesTransmitted := mTotalBytesTransmitted st + messageSize\<rparr>
      in if mTotalMessagesSent st1 > 0
         then st1\<lparr>mAverageMessageSize :=
                Finite (of_nat (unat (mTotalBytesTransmitted st1)) / of_nat (unat (mTotalMessagesSent st1)))\<rparr>
         else st1)"

definition sendToSocket :: "server_env \<Rightarrow> ProfilerServer \<Rightarrow> SocketHandle \<Rightarrow> string \<Rightarrow> bool \<times> event list" where
  "sendToSocket env s socket message =
     (if socket = AM_INVALID_SOCKET \<or> message = [] then (False, [])
      else if sv_gLoop s then (send_ok env socket message, [DeferSend socket message])
      else (False, []))"

text \<open>
  The loop of \<open>BroadcastMessage\<close> over the table, run with the clients mutex held: the
  arguments are the entries still to visit, the entries visited, the statistics, the
  count of successful sends and the events so far.
\<close>

fun BroadcastMessage_loop :: "server_env \<Rightarrow> ProfilerServer \<Rightarrow> string \<Rightarrow> (ProfilerClientID \<times> ProfilerClientInfo) list \<Rightarrow>
    (ProfilerClientID \<times> ProfilerClientInfo) list \<Rightarrow> ServerStatistics \<Rightarrow> AmUInt32 \<Rightarrow> event list \<Rightarrow>
    (ProfilerClientID \<times> ProfilerClientInfo) list \<times> ServerStatistics \<times> AmUInt32 \<times> event list" where
  "BroadcastMessage_loop env s jsonMessage [] visited st sentCount events = (visited, st, sentCount, events)"
| "BroadcastMessage_loop env s jsonMessage ((clientId, client) # rest) visited st sentCount events =
     (if \<not> mIsConnected client
      then BroadcastMessage_loop env s jsonMessage rest (visited @ [(clientId, client)]) st sentCount events
      else
        (case sendToSocket env s (mSocket client) jsonMessage of
           (sent, evs) \<Rightarrow>
             if sent
             then BroadcastMessage_loop env s jsonMessage rest
                    (visited @ [(clientId, client\<lparr>mMessagesSent := mMessagesSent client + 1,
                        mBytesTransmitted := mBytesTransmitted client + of_nat (length jsonMessage)\<rparr>)])
                    (updateStatistics st (of_nat (length jsonMessage)))
                    (sentCount + 1)
                    (events @ evs @ [Lock StatisticsMutex, Unlock StatisticsMutex])
             else BroadcastMessage_loop env s jsonMessage rest (visited @ [(clientId, client)]) st
                    sentCount (events @ evs)))"

definition BroadcastMessage :: "server_env \<Rightarrow> ProfilerServer \<Rightarrow> string \<Rightarrow> AmUInt32 \<times> ProfilerServer \<times> event list" where
  "BroadcastMessage env s jsonMessage =
     (case BroadcastMessage_loop env s jsonMessage (sv_clients s) [] (sv_statistics s) 0 [Lock ClientsMutex] of
        (clients, st, sentCount, events) \<Rightarrow>
          (sentCount, s\<lparr>sv_clients := clients, sv_statistics := st\<rparr>, events @ [Unlock ClientsMutex]))"

definition SendMessageToClient :: "server_env \<Rightarrow> ProfilerServer \<Rightarrow> ProfilerClientID \<Rightarrow> string \<Rightarrow> bool \<times> ProfilerServer \<times> event list" where
  "SendMessageToClient env s clientId jsonMessage =
     (case map_of (sv_clients s) clientId of
        None \<Rightarrow> (False, s, [Lock ClientsMutex, Unlock ClientsMutex])
      | Some client \<Rightarrow>
          if \<not> mIsConnected client then (False, s, [Lock ClientsMutex, Unlock ClientsMutex])
          else
            (case sendToSocket env s (mSocket client) jsonMessage of
               (success, evs) \<Rightarrow>
                 if success
                 then (True,
                       s\<lparr>sv_clients := AList.update clientId
                            (client\<lparr>mMessagesSent := mMessagesSent client + 1,
                               mBytesTransmitted := mBytesTransmitted client + of_nat (length jsonMessage)\<rparr>)
                            (sv_clients s),
                         sv_statistics := updateStatistics (sv_statistics s) (of_nat (length jsonMessage))\<rparr>,
                       [Lock ClientsMutex] @ evs
                       @ [Lock StatisticsMutex, Unlock StatisticsMutex, Unlock ClientsMutex])
                 else (False, s, [Lock ClientsMutex] @ evs @ [Unlock ClientsMutex])))"

definition SetOnClientConnected :: "ProfilerServer \<Rightarrow> bool \<Rightarrow> ProfilerServer \<times> event list" where
  "SetOnClientConnected s cb = (s\<lparr>sv_onClientConnected := cb\<rparr>, [Lock CallbacksMutex, Unlock CallbacksMutex])"

definition SetOnClientDisconnected :: "ProfilerServer \<Rightarrow> bool \<Rightarrow> ProfilerServer \<times> event list" where
  "SetOnClientDisconnected s cb = (s\<lparr>sv_onClientDisconnected := cb\<rparr>, [Lock CallbacksMutex, Unlock CallbacksMutex])"

definition SetOnMessageReceived :: "ProfilerServer \<Rightarrow> bool \<Rightarrow> ProfilerServer \<times> event list" where
  "SetOnMessageReceived s cb = (s\<lparr>sv_onMessageReceived := cb\<rparr>, [Lock CallbacksMutex, Unlock CallbacksMutex])"

definition SetOnError :: "ProfilerServer \<Rightarrow> bool \<Rightarrow> ProfilerServer \<times> event list" where
  "SetOnError s cb = (s\<lparr>sv_onError := cb\<rparr>, [Lock CallbacksMutex, Unlock CallbacksMutex])"

subsection \<open>Driving the server with a sequence of events\<close>

text \<open>
  The events of a started server: the transport's event loop reports an opened
  connection, a received message, a closed connection or a failed listen, the accept
  thread enters and leaves the loop, and other threads call the public methods. Handlers run one at a time on the loop, and every
  change of the table happens inside the clients mutex, so an execution is a sequence
  of such steps.
\<close>

datatype server_op =
  EvOpen ProfilerTime SocketHandle string
| EvMessage SocketHandle string
| EvClose SocketHandle
| EvListenFailed
| EvLoopStarted
| EvLoopExited
| OpDisconnectClient ProfilerClientID
| OpBroadcastMessage string
| OpSendMessageToClient ProfilerClientID string
| OpSetOnClientConnected bool
| OpSetOnClientDisconnected bool
| OpSetOnMessageReceived bool
| OpSetOnError bool
| OpStop


fun server_step :: "server_env \<Rightarrow> ProfilerServer \<Rightarrow> server_op \<Rightarrow> ProfilerServer \<times> event list" where
  "server_step env s (EvOpen now ws remoteAddr) = on_open now s ws remoteAddr"
| "server_step env s (EvMessage ws message) = on_message s ws message"
| "server_step env s (EvClose ws) = on_close s ws"
| "server_step env s EvListenFailed = on_listen_failed s"
| "server_step env s EvLoopStarted = (acceptThread_enter s, [])"
| "server_step env s EvLoopExited = (acceptThread_exit s, [])"
| "server_step env s (OpDisconnectClient clientId) = snd (DisconnectClient s clientId)"
| "server_step env s (OpBroadcastMessage jsonMessage) = snd (BroadcastMessage env s jsonMessage)"
| "server_step env s (OpSendMessageToClient clientId jsonMessage) =
     snd (SendMessageToClient env s clientId jsonMessage)"
| "server_step env s (OpSetOnClientConnected cb) = SetOnClientConnected s cb"
| "server_step env s (OpSetOnClientDisconnected cb) = SetOnClientDisconnected s cb"
| "server_step env s (OpSetOnMessageReceived cb) = SetOnMessageReceived s cb"
| "server_step env s (OpSetOnError cb) = SetOnError s cb"
| "server_step env s OpStop = Stop s"

fun server_run :: "server_env \<Rightarrow> ProfilerServer \<Rightarrow> server_op list \<Rightarrow> ProfilerServer \<times> event list" where
  "server_run env s [] = (s, [])"
| "server_run env s (c # cs) =
     (case server_step env s c of
        (s1, events) \<Rightarrow>
          (case server_run env s1 cs of (s2, events') \<Rightarrow> (s2, events @ events')))"

text \<open>
  The mutexes held at each callback invocation of a trace: the trace is read from left
  to right, starting with the mutexes \<open>held\<close>.
\<close>

fun invocations :: "mutex list \<Rightarrow> event list \<Rightarrow> (callback \<times> mutex list) list" where
  "invocations held [] = []"
| "invocations held (Lock m # events) = invocations (m # held) events"
| "invocations held (Unlock m # events) = invocations (remove1 m held) events"
| "invocations held (Invoke cb # events) = (cb, held) # invocations held events"
| "invocations held (e # events) = invocations held events"


section \<open>ProfilerManager (Manager.h, Manager.cpp)\<close>

record ManagerStatistics =
  totalMessagesSent :: AmUInt64
  messagesDropped :: AmUInt64
  bytesTransmitted :: AmUInt64
  averageMessageSizeBytes :: AmReal32
  currentUpdateRate :: AmReal32
  activeClients :: AmUInt32

text \<open>
  The manager object. A \<open>unique_ptr\<close> member is an \<open>option\<close> (or, where only its being
  null matters, a boolean), \<open>pm_updateThread\<close> says whether the thread handle is
  non-null. The caches for change detection, the time of the last update and the local
  callback are left out: only the update loop and \<open>Deinitialize\<close> touch them.
\<close>

record ProfilerManager =
  pm_initialized :: bool
  pm_enabled :: bool
  pm_running :: bool
  pm_config :: ProfilerConfig
  pm_updateThread :: bool
  pm_dataCollector :: bool
  pm_messageQueue :: "ProfilerDataVariant ProfilerMessageQueue option"
  pm_messagePool :: bool
  pm_networkServer :: "ProfilerServer option"
  pm_statistics :: ManagerStatistics
  pm_updateInterval :: AmReal32

definition ManagerStatistics_zero :: ManagerStatistics where
  "ManagerStatistics_zero =
     \<lparr>totalMessagesSent = 0, messagesDropped = 0, bytesTransmitted = 0,
      averageMessageSizeBytes = Finite 0, currentUpdateRate = Finite 0, activeClients = 0\<rparr>"

definition ProfilerManager_new :: ProfilerManager where
  "ProfilerManager_new =
     \<lparr>pm_initialized = False, pm_enabled = False, pm_running = False,
      pm_config = ProfilerConfig_default, pm_updateThread = False, pm_dataCollector = False,
      pm_messageQueue = Some (ProfilerMessageQueue_new 1000), pm_messagePool = True,
      pm_networkServer = None, pm_statistics = ManagerStatistics_zero,
      pm_updateInterval = f_recip (Finite 30)\<rparr>"

text \<open>
  What the manager cannot decide by itself: the outcomes of starting the server, whether
  the update thread could be created, and the clock when the server is constructed.
\<close>

record manager_env =
  net :: server_env
  update_thread_ok :: bool
  clock :: ProfilerTime

definition StartNetworkServer :: "manager_env \<Rightarrow> ProfilerManager \<Rightarrow> bool \<times> ProfilerManager" where
  "StartNetworkServer env m =
     (case pm_networkServer m of
        Some server \<Rightarrow> (True, m)
      | None \<Rightarrow>
          (case Start (net env) (ProfilerServer_new (clock env)) (mServerPort (pm_config m))
                  (mBindAddress (pm_config m)) (mMaxClients (pm_config m)) of
             (started, server) \<Rightarrow>
               if \<not> started then (False, m\<lparr>pm_networkServer := None\<rparr>)
               else (True, m\<lparr>pm_networkServer :=
                       Some (fst (SetOnError
                         (fst (SetOnClientDisconnected
                           (fst (SetOnClientConnected server True)) True)) True))\<rparr>)))"

definition StopNetworkServer :: "ProfilerManager \<Rightarrow> ProfilerManager" where
  "StopNetworkServer m =
     (case pm_networkServer m of None \<Rightarrow> m | Some server \<Rightarrow> m\<lparr>pm_networkServer := None\<rparr>)"

definition StartUpdateThread :: "manager_env \<Rightarrow> ProfilerManager \<Rightarrow> ProfilerManager" where
  "StartUpdateThread env m =
     (if pm_updateThread m then m
      else m\<lparr>pm_running := True, pm_updateThread := update_thread_ok env\<rparr>)"

text \<open>\<open>StopUpdateThread\<close> waits for the thread and releases it; the handle is not reset.\<close>

definition StopUpdateThread :: "ProfilerManager \<Rightarrow> ProfilerManager" where
  "StopUpdateThread m = (if \<not> pm_updateThread m then m else m\<lparr>pm_running := False\<rparr>)"

definition Initialize :: "manager_env \<Rightarrow> ProfilerManager \<Rightarrow> ProfilerConfig \<Rightarrow> bool \<times> ProfilerManager" where
  "Initialize env m config =
     (if pm_initialized m then (True, m)
      else
        (let m1 = m\<lparr>pm_config := config\<rparr>
         in if \<not> Validate (pm_config m1) then (False, m1)
            else
              (let m2 = m1\<lparr>pm_updateInterval := f_recip (mUpdateFrequencyHz (pm_config m1))\<rparr>;
                   m3 = m2\<lparr>pm_dataCollector := True\<rparr>
               in if mEnableNetworking (pm_config m3)
                  then (case StartNetworkServer env m3 of
                          (started, m4) \<Rightarrow>
                            if \<not> started then (False, m4)
                            else (True, (StartUpdateThread env m4)\<lparr>pm_initialized := True, pm_enabled := True\<rparr>))
                  else (True, (StartUpdateThread env m3)\<lparr>pm_initialized := True, pm_enabled := True\<rparr>))))"


text \<open>
  \<open>Deinitialize\<close> clears the queue through \<open>_messageQueue\<close> and then resets the
  pointers; nothing in \<open>Initialize\<close> creates a queue again.
\<close>

datatype manager_error = NullPointer

definition Deinitialize :: "ProfilerManager \<Rightarrow> manager_error + ProfilerManager" where
  "Deinitialize m =
     (if \<not> pm_initialized m then Inr m
      else
        (let m1 = StopNetworkServer (StopUpdateThread (m\<lparr>pm_enabled := False\<rparr>))
         in case pm_messageQueue m1 of
              None \<Rightarrow> Inl NullPointer
            | Some q \<Rightarrow>
                Inr (m1\<lparr>pm_dataCollector := False, pm_networkServer := None,
                         pm_messagePool := False, pm_messageQueue := None,
                         pm_initialized := False\<rparr>)))"

text \<open>An environment in which every start succeeds.\<close>

definition ok_env :: manager_env where
  "ok_env =
     \<lparr>net = \<lparr>alloc_ok = True, thread_ok = True, send_ok = (\<lambda>ws message. True)\<rparr>,
      update_thread_ok = True, clock = 0\<rparr>"

definition SetEnabled :: "ProfilerManager \<Rightarrow> bool \<Rightarrow> ProfilerManager" where
  "SetEnabled m enabled = m\<lparr>pm_enabled := enabled\<rparr>"

definition SetCategoryMask :: "ProfilerManager \<Rightarrow> AmUInt32 \<Rightarrow> ProfilerManager" where
  "SetCategoryMask m categoryMask = m\<lparr>pm_config := (pm_config m)\<lparr>mCategoryMask := categoryMask\<rparr>\<rparr>"

definition ShouldCaptureCategory :: "ProfilerManager \<Rightarrow> eProfilerCategory \<Rightarrow> bool" where
  "ShouldCaptureCategory m category = (mCategoryMask (pm_config m) AND category_bits category \<noteq> 0)"

text \<open>
  A capture method dereferences \<open>_messageQueue\<close>; on a null pointer the call does not
  return normally.
\<close>

definition QueueMessage :: "ProfilerManager \<Rightarrow> ProfilerDataVariant \<Rightarrow> manager_error + ProfilerManager" where
  "QueueMessage m message =
     (case pm_messageQueue m of
        None \<Rightarrow> Inl NullPointer
      | Some q \<Rightarrow>
          (case PushMessage q message of
             (pushed, q') \<Rightarrow>
               if \<not> pushed
               then Inr (m\<lparr>pm_messageQueue := Some q',
                          pm_statistics := (pm_statistics m)
                            \<lparr>messagesDropped := messagesDropped (pm_statistics m) + 1\<rparr>\<rparr>)
               else Inr (m\<lparr>pm_messageQueue := Some q'\<rparr>)))"

text \<open>
  The data collector, an external collaborator: the snapshot it returns for each
  request and the identifiers it enumerates.
\<close>

record collector =
  CollectEngineData :: ProfilerEngineData
  CollectEntityData :: "AmEntityID \<Rightarrow> ProfilerEntityData"
  CollectChannelData :: "AmChannelID \<Rightarrow> ProfilerChannelData"
  CollectListenerData :: "AmListenerID \<Rightarrow> ProfilerListenerData"
  CollectPerformanceData :: ProfilerPerformanceData
  GetAllEntityIds :: "AmEntityID list"
  GetAllChannelIds :: "AmChannelID list"
  GetAllListenerIds :: "AmListenerID list"

definition CaptureEngineState :: "collector \<Rightarrow> ProfilerManager \<Rightarrow> manager_error + ProfilerManager" where
  "CaptureEngineState dc m =
     (if \<not> pm_enabled m \<or> \<not> ShouldCaptureCategory m eProfilerCategory_Engine then Inr m
      else if pm_dataCollector m then QueueMessage m (EngineData (CollectEngineData dc))
      else Inr m)"

definition CaptureEntityState :: "collector \<Rightarrow> ProfilerManager \<Rightarrow> AmEntityID \<Rightarrow> manager_error + ProfilerManager" where
  "CaptureEntityState dc m entityId =
     (if \<not> pm_enabled m \<or> \<not> ShouldCaptureCategory m eProfilerCategory_Entity then Inr m
      else if pm_dataCollector m then QueueMessage m (EntityData (CollectEntityData dc entityId))
      else Inr m)"

definition CaptureChannelState :: "collector \<Rightarrow> ProfilerManager \<Rightarrow> AmChannelID \<Rightarrow> manager_error + ProfilerManager" where
  "CaptureChannelState dc m channelId =
     (if \<not> pm_enabled m \<or> \<not> ShouldCaptureCategory m eProfilerCategory_Channel then Inr m
      else if pm_dataCollector m then QueueMessage m (ChannelData (CollectChannelData dc channelId))
      else Inr m)"

definition CaptureListenerState :: "collector \<Rightarrow> ProfilerManager \<Rightarrow> AmListenerID \<Rightarrow> manager_error + ProfilerManager" where
  "CaptureListenerState dc m listenerId =
     (if \<not> pm_enabled m \<or> \<not> ShouldCaptureCategory m eProfilerCategory_Listener then Inr m
      else if pm_dataCollector m then QueueMessage m (ListenerData (CollectListenerData dc listenerId))
      else Inr m)"

definition CapturePerformanceMetrics :: "collector \<Rightarrow> ProfilerManager \<Rightarrow> manager_error + ProfilerManager" where
  "CapturePerformanceMetrics dc m =
     (if \<not> pm_enabled m \<or> \<not> ShouldCaptureCategory m eProfilerCategory_Performance then Inr m
      else if pm_dataCollector m then QueueMessage m (PerformanceData (CollectPerformanceData dc))
      else Inr m)"

definition CaptureEvent :: "ProfilerManager \<Rightarrow> ProfilerEvent \<Rightarrow> manager_error + ProfilerManager" where
  "CaptureEvent m ev =
     (if \<not> pm_enabled m \<or> \<not> ShouldCaptureCategory m eProfilerCategory_Events then Inr m
      else QueueMessage m (EventData ev))"

text \<open>The \<open>for\<close> loop of a bulk capture: one capture per identifier, in order.\<close>

fun capture_each :: "(ProfilerManager \<Rightarrow> 'id \<Rightarrow> manager_error + ProfilerManager) \<Rightarrow> ProfilerManager \<Rightarrow> 'id list \<Rightarrow>
    manager_error + ProfilerManager" where
  "capture_each capture m [] = Inr m"
| "capture_each capture m (i # ids) =
     (case capture m i of Inl e \<Rightarrow> Inl e | Inr m' \<Rightarrow> capture_each capture m' ids)"

definition CaptureAllEntities :: "collector \<Rightarrow> ProfilerManager \<Rightarrow> manager_error + ProfilerManager" where
  "CaptureAllEntities dc m =
     (if \<not> pm_enabled m \<or> \<not> ShouldCaptureCategory m eProfilerCategory_Entity then Inr m
      else if pm_dataCollector m then capture_each (CaptureEntityState dc) m (GetAllEntityIds dc)
      else Inr m)"

definition CaptureAllChannels :: "collector \<Rightarrow> ProfilerManager \<Rightarrow> manager_error + ProfilerManager" where
  "CaptureAllChannels dc m =
     (if \<not> pm_enabled m \<or> \<not> ShouldCaptureCategory m eProfilerCategory_Channel then Inr m
      else if pm_dataCollector m then capture_each (CaptureChannelState dc) m (GetAllChannelIds dc)
      else Inr m)"

definition CaptureAllListeners :: "collector \<Rightarrow> ProfilerManager \<Rightarrow> manager_error + ProfilerManager" where
  "CaptureAllListeners dc m =
     (if \<not> pm_enabled m \<or> \<not> ShouldCaptureCategory m eProfilerCategory_Listener then Inr m
      else if pm_dataCollector m then capture_each (CaptureListenerState dc) m (GetAllListenerIds dc)
      else Inr m)"

definition CaptureFullState :: "collector \<Rightarrow> ProfilerManager \<Rightarrow> manager_error + ProfilerManager" where
  "CaptureFullState dc m =
     (if \<not> pm_enabled m then Inr m
      else
        (case CaptureEngineState dc m of Inl e \<Rightarrow> Inl e | Inr m1 \<Rightarrow>
        (case CaptureAllEntities dc m1 of Inl e \<Rightarrow> Inl e | Inr m2 \<Rightarrow>
        (case CaptureAllChannels dc m2 of Inl e \<Rightarrow> Inl e | Inr m3 \<Rightarrow>
        (case CaptureAllListeners dc m3 of Inl e \<Rightarrow> Inl e | Inr m4 \<Rightarrow>
           CapturePerformanceMetrics dc m4)))))"

text \<open>The size of the manager's queue, \<open>_messageQueue->Size()\<close>.\<close>

definition queue_size :: "ProfilerManager \<Rightarrow> AmSize option" where
  "queue_size m = map_option Size (pm_messageQueue m)"

section \<open>Properties of the message queue\<close>

lemma PopMessages_loop_eq:
  "count \<le> maxCount \<Longrightarrow>
   PopMessages_loop queue messages count maxCount =
     (drop (unat maxCount - unat count) queue, messages @ take (unat maxCount - unat count) queue)"
proof (induction queue arbitrary: messages count)
  case Nil
  then show ?case by simp
next
  case (Cons front rest)
  show ?case
  proof (cases "count < maxCount")
    case True
    have suc: "unat (count + 1) = Suc (unat count)"
      using True by unat_arith
    have le: "count + 1 \<le> maxCount"
      using True suc by (simp add: word_le_nat_alt word_less_nat_alt)
    have k: "unat maxCount - unat count = Suc (unat maxCount - unat (count + 1))"
      using True suc by (simp add: word_less_nat_alt)
    show ?thesis
      using True Cons.IH [OF le, of "messages @ [front]"] by (simp add: k)
  next
    case False
    with Cons.prems have "count = maxCount" by simp
    then show ?thesis by simp
  qed
qed

lemma PopMessages_eq:
  "PopMessages env q maxCount =
     (case reserve env maxCount of
        Some e \<Rightarrow> (Inl e, q)
      | None \<Rightarrow>
          (Inr (take (unat maxCount) (mq_queue q)),
           q\<lparr>mq_queue := drop (unat maxCount) (mq_queue q),
             mq_currentSize := of_nat (length (mq_queue q) - unat maxCount)\<rparr>))"
  by (simp add: PopMessages_def PopMessages_loop_eq split: option.splits)


lemma queue_run_length: "queue_run env q cs = (outs, q') \<Longrightarrow> length outs = length cs"
  by (induction cs arbitrary: q outs q') (auto split: prod.splits)






lemma queue_step_fifo:
  "queue_step env q c = (out, q') \<Longrightarrow> c \<noteq> OpClear \<Longrightarrow>
   mq_queue q @ accepted_pushes [c] [out] = popped_messages [out] @ mq_queue q'"
  by (cases c) (auto simp: PushMessage_def PopMessage_def PopMessages_eq Let_def
      split: if_splits list.splits option.splits)

lemma accepted_pushes_Cons:
  "accepted_pushes (c # cs) (out # outs) = accepted_pushes [c] [out] @ accepted_pushes cs outs"
  by (cases "(c # cs, out # outs)" rule: accepted_pushes.cases) auto

lemma popped_messages_Cons:
  "popped_messages (out # outs) = popped_messages [out] @ popped_messages outs"
  by (cases "(out # outs)" rule: popped_messages.cases) auto

lemma queue_run_fifo:
  "queue_run env q cs = (outs, q') \<Longrightarrow> OpClear \<notin> set cs \<Longrightarrow>
   mq_queue q @ accepted_pushes cs outs = popped_messages outs @ mq_queue q'"
proof (induction cs arbitrary: q outs q')
  case Nil
  then show ?case by simp
next
  case (Cons c cs)
  obtain out q1 where s: "queue_step env q c = (out, q1)" by (cases "queue_step env q c")
  obtain outs1 q2 where r: "queue_run env q1 cs = (outs1, q2)" by (cases "queue_run env q1 cs")
  from Cons.prems(1) s r have e: "q' = q2" "outs = out # outs1" by simp_all
  from Cons.prems(2) have nc: "c \<noteq> OpClear" "OpClear \<notin> set cs" by auto
  have "mq_queue q @ accepted_pushes (c # cs) outs
        = (mq_queue q @ accepted_pushes [c] [out]) @ accepted_pushes cs outs1"
    unfolding e by (simp add: accepted_pushes_Cons [of c cs])
  also have "\<dots> = popped_messages [out] @ (mq_queue q1 @ accepted_pushes cs outs1)"
    using queue_step_fifo [OF s nc(1)] by simp
  also have "\<dots> = popped_messages [out] @ (popped_messages outs1 @ mq_queue q2)"
    using Cons.IH [OF r nc(2)] by simp
  also have "\<dots> = popped_messages outs @ mq_queue q'"
    unfolding e by (simp add: popped_messages_Cons [of out outs1])
  finally show ?case .
qed




text \<open>
  Claim C2, as the code has it. \<open>PopMessages(n)\<close> first reserves room for \<open>n\<close> messages
  in its result. When that reservation succeeds, which it does for every \<open>n\<close> up to
  the vector's \<open>max_size()\<close> whose allocation succeeds (and always for \<open>n = 0\<close>), the
  call returns at most \<open>n\<close> messages; the queue before the call is the returned
  messages followed by the queue after it, and nothing else of the queue object changes
  but the cached size; it returns fewer than \<open>n\<close> messages exactly when the queue holds
  fewer than \<open>n\<close>. When the reservation fails, the call throws before it takes the
  mutex and the queue is as it was. Across any sequence of \<open>PushMessage\<close>,
  \<open>PopMessage\<close> and \<open>PopMessages\<close> calls on a new queue, throwing calls included, the
  messages popped so far followed by the messages still queued are exactly the accepted
  pushes in push order, so pops are FIFO and nothing is returned twice. The call never
  waits for messages: its loop is structurally recursive on the queue, and the function
  is total.
\<close>

theorem C2_PopMessages_fifo:
  "(reserve env n = None \<longleftrightarrow> unat n \<le> vec_max_size env \<and> (n = 0 \<or> vec_alloc_ok env (unat n)))
   \<and> (reserve env n = None \<longrightarrow>
        (\<exists>messages. fst (PopMessages env (q :: 'a ProfilerMessageQueue) n) = Inr messages
           \<and> length messages \<le> unat n
           \<and> mq_queue q = messages @ mq_queue (snd (PopMessages env q n))
           \<and> (length messages < unat n \<longleftrightarrow> length (mq_queue q) < unat n))
        \<and> mq_maxSize (snd (PopMessages env q n)) = mq_maxSize q
        \<and> mq_droppedMessages (snd (PopMessages env q n)) = mq_droppedMessages q)
   \<and> (reserve env n \<noteq> None \<longrightarrow>
        (\<exists>e. fst (PopMessages env q n) = Inl e) \<and> snd (PopMessages env q n) = q)
   \<and> (queue_run env (ProfilerMessageQueue_new M) (cs :: 'a queue_op list) = (outs, q')
        \<and> OpClear \<notin> set cs \<longrightarrow>
        accepted_pushes cs outs = popped_messages outs @ mq_queue q'
        \<and> (distinct (accepted_pushes cs outs) \<longrightarrow> distinct (popped_messages outs)))"
proof (intro conjI impI)
  show "reserve env n = None \<longleftrightarrow> unat n \<le> vec_max_size env \<and> (n = 0 \<or> vec_alloc_ok env (unat n))"
    by (auto simp: reserve_def unat_gt_0)
next
  assume ok: "reserve env n = None"
  have "fst (PopMessages env q n) = Inr (take (unat n) (mq_queue q))
      \<and> length (take (unat n) (mq_queue q)) \<le> unat n
      \<and> mq_queue q = take (unat n) (mq_queue q) @ mq_queue (snd (PopMessages env q n))
      \<and> (length (take (unat n) (mq_queue q)) < unat n \<longleftrightarrow> length (mq_queue q) < unat n)"
    using ok by (auto simp: PopMessages_eq)
  then show "\<exists>messages. fst (PopMessages env q n) = Inr messages
           \<and> length messages \<le> unat n
           \<and> mq_queue q = messages @ mq_queue (snd (PopMessages env q n))
           \<and> (length messages < unat n \<longleftrightarrow> length (mq_queue q) < unat n)"
    by blast
  show "mq_maxSize (snd (PopMessages env q n)) = mq_maxSize q"
    using ok by (simp add: PopMessages_eq)
  show "mq_droppedMessages (snd (PopMessages env q n)) = mq_droppedMessages q"
    using ok by (simp add: PopMessages_eq)
next
  assume "reserve env n \<noteq> None"
  then obtain e where e: "reserve env n = Some e" by blast
  show "\<exists>e. fst (PopMessages env q n) = Inl e"
    using e by (simp add: PopMessages_eq)
  show "snd (PopMessages env q n) = q"
    using e by (simp add: PopMessages_eq)
next
  assume a: "queue_run env (ProfilerMessageQueue_new M) cs = (outs, q') \<and> OpClear \<notin> set cs"
  then show eq: "accepted_pushes cs outs = popped_messages outs @ mq_queue q'"
    using queue_run_fifo [of env "ProfilerMessageQueue_new M" cs outs q']
    by (simp add: ProfilerMessageQueue_new_def)
  assume "distinct (accepted_pushes cs outs)"
  with eq show "distinct (popped_messages outs)"
    by simp
qed

text \<open>
  The scenario of the specification continued: after A, B and the rejected C,
  \<open>PopMessages(10)\<close> returns A, B in that order and the queue is empty. A call with a
  count that cannot be reserved throws and leaves the two messages queued.
\<close>

theorem C2_PopMessages_fifo_witness:
  "reserve generous_vector_env 10 = None
   \<and> queue_run generous_vector_env (ProfilerMessageQueue_new 2)
       [OpPush ''A'', OpPush ''B'', OpPush ''C'', OpPopMessages 10]
     = ([OutPush True, OutPush True, OutPush False, OutPopMessages (Inr [''A'', ''B''])],
        \<lparr>mq_queue = [], mq_maxSize = 2, mq_currentSize = 0, mq_droppedMessages = 1\<rparr>)
   \<and> OpClear \<notin> set [OpPush ''A'', OpPush ''B'', OpPush ''C'', OpPopMessages 10]
   \<and> distinct (accepted_pushes [OpPush ''A'', OpPush ''B'', OpPush ''C'', OpPopMessages 10]
        [OutPush True, OutPush True, OutPush False, OutPopMessages (Inr [''A'', ''B''])])
   \<and> distinct (popped_messages
        [OutPush True, OutPush True, OutPush False, OutPopMessages (Inr [''A'', ''B'']) :: string queue_out])
   \<and> mq_maxSize (snd (PopMessages generous_vector_env \<lparr>mq_queue = [''A'', ''B''], mq_maxSize = 2,
        mq_currentSize = 2, mq_droppedMessages = 1\<rparr> 10)) = 2
   \<and> reserve generous_vector_env 0x8000000000000000 \<noteq> None
   \<and> snd (PopMessages generous_vector_env \<lparr>mq_queue = [''A'', ''B''], mq_maxSize = 2,
        mq_currentSize = 2, mq_droppedMessages = 1\<rparr> 0x8000000000000000)
     = \<lparr>mq_queue = [''A'', ''B''], mq_maxSize = 2, mq_currentSize = 2, mq_droppedMessages = 1\<rparr>"
proof -
  let ?cs = "[OpPush ''A'', OpPush ''B'', OpPush ''C'', OpPopMessages 10]"
  let ?outs = "[OutPush True, OutPush True, OutPush False, OutPopMessages (Inr [''A'', ''B''])]"
  let ?q2 = "\<lparr>mq_queue = [''A'', ''B''], mq_maxSize = 2, mq_currentSize = 2, mq_droppedMessages = 1\<rparr>
    :: string ProfilerMessageQueue"
  let ?q' = "\<lparr>mq_queue = [], mq_maxSize = 2, mq_currentSize = 0, mq_droppedMessages = 1\<rparr>
    :: string ProfilerMessageQueue"
  have r: "reserve generous_vector_env 10 = None"
    by (simp add: reserve_def generous_vector_env_def)
  have h1: "queue_run generous_vector_env (ProfilerMessageQueue_new 2) ?cs = (?outs, ?q')"
    by (simp add: ProfilerMessageQueue_new_def PushMessage_def PopMessages_def r)
  have h2: "OpClear \<notin> set ?cs"
    by simp
  have h3: "distinct (accepted_pushes ?cs ?outs)"
    by simp
  have f: "reserve generous_vector_env 0x8000000000000000 \<noteq> None"
    by (simp add: reserve_def generous_vector_env_def)
  note t = C2_PopMessages_fifo [of generous_vector_env 10 ?q2 2 ?cs ?outs ?q']
  note u = C2_PopMessages_fifo [of generous_vector_env "0x8000000000000000" ?q2 2 ?cs ?outs ?q']
  have c4: "distinct (popped_messages ?outs)"
    using t h1 h2 h3 by blast
  have c5: "mq_maxSize (snd (PopMessages generous_vector_env ?q2 10)) = mq_maxSize ?q2"
    using t r by blast
  have c6: "snd (PopMessages generous_vector_env ?q2 0x8000000000000000) = ?q2"
    using u f by blast
  from r h1 h2 h3 c4 c5 c6 f show ?thesis
    by simp
qed

text \<open>
  The claim as stated, for every \<open>n\<close>, fails for a count above the vector's
  \<open>max_size()\<close>: even with the most generous standard library, \<open>PopMessages(2^64 - 1)\<close>
  on a queue holding A and B throws \<open>std::length_error\<close>, returns no messages and
  removes none, although the queue holds fewer than \<open>n\<close> messages.
\<close>

theorem C2_PopMessages_counterexample:
  "PopMessages generous_vector_env
     \<lparr>mq_queue = [''A'', ''B''], mq_maxSize = 2, mq_currentSize = 2, mq_droppedMessages = 0\<rparr>
     0xFFFFFFFFFFFFFFFF
   = (Inl length_error,
      \<lparr>mq_queue = [''A'', ''B''], mq_maxSize = 2, mq_currentSize = 2, mq_droppedMessages = 0\<rparr>)"
  by (simp add: PopMessages_def reserve_def generous_vector_env_def)


section \<open>Properties of message identifiers\<close>

lemma unat_add_of_nat_64:
  "unat (c :: AmUInt64) + k < 2 ^ 64 \<Longrightarrow> unat (c + of_nat k) = unat c + k"
  by (simp add: unat_word_ariths unat_of_nat)

lemma construct_snapshots_ids:
  "length (fst (construct_snapshots nows counter)) = length nows
   \<and> snd (construct_snapshots nows counter) = counter + of_nat (length nows)
   \<and> (\<forall>i < length nows.
        mMessageId (fst (construct_snapshots nows counter) ! i) = counter + of_nat (Suc i))"
proof (induction nows arbitrary: counter)
  case Nil
  show ?case by simp
next
  case (Cons now nows)
  obtain snapshots counter'' where r: "construct_snapshots nows (counter + 1) = (snapshots, counter'')"
    by (cases "construct_snapshots nows (counter + 1)")
  from Cons.IH [of "counter + 1"] r
  have ih: "length snapshots = length nows" "counter'' = counter + 1 + of_nat (length nows)"
    "\<forall>i < length nows. mMessageId (snapshots ! i) = counter + 1 + of_nat (Suc i)"
    by simp_all
  have step: "construct_snapshots (now # nows) counter =
      (\<lparr>mTimestamp = now, mMessageId = counter + 1, mCategory = eProfilerCategory_Engine,
        mPriority = eProfilerPriority_Normal\<rparr> # snapshots, counter'')"
    by (simp add: ProfilerDataSnapshot_new_def GenerateMessageId_def r)
  have nth: "mMessageId (fst (construct_snapshots (now # nows) counter) ! i) = counter + of_nat (Suc i)"
    if "i < length (now # nows)" for i
  proof (cases i)
    case 0
    then show ?thesis by (simp add: step del: construct_snapshots.simps)
  next
    case (Suc j)
    with that have "j < length nows" by simp
    with ih(3) have "mMessageId (snapshots ! j) = counter + 1 + of_nat (Suc j)" by blast
    with Suc show ?thesis by (simp add: step del: construct_snapshots.simps)
  qed
  from ih nth show ?case by (simp add: step del: construct_snapshots.simps)
qed

lemma construct_snapshots_ids_unat:
  assumes "unat counter + length nows < 2 ^ 64" and "i < length nows"
  shows "unat (map mMessageId (fst (construct_snapshots nows counter)) ! i) = unat counter + Suc i"
proof -
  from assms have b: "unat counter + Suc i < 2 ^ 64" by simp
  from assms(2) have "map mMessageId (fst (construct_snapshots nows counter)) ! i
      = counter + of_nat (Suc i)"
    using construct_snapshots_ids [of nows counter] by simp
  with unat_add_of_nat_64 [OF b] show ?thesis by simp
qed

text \<open>
  Claim C3, as the code has it. The counter is a 64-bit unsigned integer, so the claim
  holds as long as it does not wrap: for a sequence of constructions that starts with
  the counter at \<open>counter\<close> and is shorter than \<open>2^64 - counter\<close> (in a process, where
  the counter starts at 0: fewer than \<open>2^64\<close> constructions), the identifiers are
  strictly increasing in construction order, hence pairwise distinct, and the \<open>i\<close>-th
  one is \<open>counter + i\<close>. Constructions on several threads are ordered by their atomic
  increments.
\<close>

theorem C3_message_ids_increasing:
  assumes "unat counter + length nows < 2 ^ 64"
  shows "sorted_wrt (<) (map mMessageId (fst (construct_snapshots nows counter)))
    \<and> distinct (map mMessageId (fst (construct_snapshots nows counter)))
    \<and> map unat (map mMessageId (fst (construct_snapshots nows counter)))
        = [Suc (unat counter) ..< Suc (unat counter + length nows)]"
proof -
  let ?ids = "map mMessageId (fst (construct_snapshots nows counter))"
  have len: "length ?ids = length nows"
    using construct_snapshots_ids [of nows counter] by simp
  have nth: "unat (?ids ! i) = unat counter + Suc i" if "i < length nows" for i
    using construct_snapshots_ids_unat [OF assms that] .
  have sorted: "sorted_wrt (<) ?ids"
    unfolding sorted_wrt_iff_nth_less
  proof (intro allI impI)
    fix i j
    assume ij: "i < j" and "j < length ?ids"
    with len have i: "i < length nows" and j: "j < length nows"
      by simp_all
    have "unat (?ids ! i) < unat (?ids ! j)"
      using nth [OF i] nth [OF j] ij by simp
    then show "?ids ! i < ?ids ! j"
      by (simp add: word_less_nat_alt)
  qed
  have distinct: "distinct ?ids"
    using sorted by (simp add: strict_sorted_iff)
  have vals: "map unat ?ids = [Suc (unat counter) ..< Suc (unat counter + length nows)]"
  proof (rule nth_equalityI)
    show "length (map unat ?ids) = length [Suc (unat counter) ..< Suc (unat counter + length nows)]"
      using len by (simp del: upt_Suc)
  next
    fix i
    assume "i < length (map unat ?ids)"
    with len have i: "i < length nows" by simp
    with len nth [OF i] show "map unat ?ids ! i = [Suc (unat counter) ..< Suc (unat counter + length nows)] ! i"
      by (simp del: upt_Suc)
  qed
  from sorted distinct vals show ?thesis by blast
qed

text \<open>Three constructions in a new process get the identifiers 1, 2, 3.\<close>

theorem C3_message_ids_increasing_witness:
  "unat sMessageIdCounter_init + length [10, 20, 30 :: ProfilerTime] < 2 ^ 64
   \<and> sorted_wrt (<) (map mMessageId (fst (construct_snapshots [10, 20, 30] sMessageIdCounter_init)))
   \<and> distinct (map mMessageId (fst (construct_snapshots [10, 20, 30] sMessageIdCounter_init)))
   \<and> map mMessageId (fst (construct_snapshots [10, 20, 30] sMessageIdCounter_init)) = [1, 2, 3]"
proof -
  have h: "unat sMessageIdCounter_init + length [10, 20, 30 :: ProfilerTime] < 2 ^ 64"
    by (simp add: sMessageIdCounter_init_def)
  have v: "map mMessageId (fst (construct_snapshots [10, 20, 30] sMessageIdCounter_init)) = [1, 2, 3]"
    by (simp add: sMessageIdCounter_init_def ProfilerDataSnapshot_new_def GenerateMessageId_def)
  from h v C3_message_ids_increasing [OF h] show ?thesis
    by blast
qed

text \<open>
  The claim as stated fails once the counter wraps: of \<open>2^64 + 1\<close> snapshots constructed
  in one process, the last gets the identifier 1 of the first.
\<close>

theorem C3_message_ids_counterexample:
  "\<not> distinct (map mMessageId
      (fst (construct_snapshots (replicate (2 ^ 64 + 1) 0) sMessageIdCounter_init)))"
proof
  let ?nows = "replicate (2 ^ 64 + 1) (0 :: ProfilerTime)"
  let ?ids = "map mMessageId (fst (construct_snapshots ?nows sMessageIdCounter_init))"
  assume d: "distinct ?ids"
  note ids = construct_snapshots_ids [of ?nows sMessageIdCounter_init]
  have len: "length ?ids = 2 ^ 64 + 1"
    using ids by simp
  have first: "?ids ! 0 = 1"
    using ids by (simp add: sMessageIdCounter_init_def)
  have "?ids ! (2 ^ 64) = of_nat (Suc (2 ^ 64))"
    using ids by (simp add: sMessageIdCounter_init_def)
  also have "\<dots> = (1 :: AmUInt64)"
    by simp
  finally have last: "?ids ! (2 ^ 64) = 1" .
  have "(0 :: nat) \<noteq> 2 ^ 64" by simp
  moreover have "0 < length ?ids" "2 ^ 64 < length ?ids"
    using len by simp_all
  ultimately have "?ids ! 0 \<noteq> ?ids ! (2 ^ 64)"
    using d by (simp only: distinct_conv_nth) blast
  with first last show False by simp
qed

section \<open>Properties of configuration validation\<close>

lemmas ProfilerConfig_default_simps =
  ProfilerConfig_default_def kDefaultProfilerPort_def kMaxProfilerClients_def
  kProfilerMessageBufferSize_def

text \<open>
  Claim C4. \<open>Validate\<close> returns false when networking is enabled and the port or the
  client limit is 0, and when the update frequency is at most 0, above 1000 or an
  infinity. It does not enforce the lower bound 0.1 Hz that its own error message
  states ("must be 0.1-1000.0 Hz"): the check is \<open>mUpdateFrequencyHz <= 0.0f\<close>, so the
  default configuration with the frequency set to 0.0625 Hz passes validation.
\<close>

theorem C4_Validate_frequency_floor:
  "Validate (ProfilerConfig_default\<lparr>mUpdateFrequencyHz := Finite (1 / 16)\<rparr>)
   \<and> f_lt (Finite (1 / 16)) (Finite (1 / 10))
   \<and> (mEnableNetworking c \<and> (mServerPort c = 0 \<or> mMaxClients c = 0) \<longrightarrow> \<not> Validate c)
   \<and> (f_le (mUpdateFrequencyHz c) (Finite 0) \<or> f_gt (mUpdateFrequencyHz c) (Finite 1000)
        \<longrightarrow> \<not> Validate c)"
proof (intro conjI impI)
  show "Validate (ProfilerConfig_default\<lparr>mUpdateFrequencyHz := Finite (1 / 16)\<rparr>)"
    by (simp add: Validate_def ProfilerConfig_default_simps f_gt_def)
  show "f_lt (Finite (1 / 16)) (Finite (1 / 10))"
    by simp
next
  assume "mEnableNetworking c \<and> (mServerPort c = 0 \<or> mMaxClients c = 0)"
  then show "\<not> Validate c"
    by (auto simp: Validate_def)
next
  assume "f_le (mUpdateFrequencyHz c) (Finite 0) \<or> f_gt (mUpdateFrequencyHz c) (Finite 1000)"
  then show "\<not> Validate c"
    by (simp add: Validate_def)
qed

text \<open>
  The scenario of the specification, \<open>ProfilerConfig{mEnableNetworking=true, mServerPort=0}\<close>,
  and a frequency of 2000 Hz: both fail validation.
\<close>

theorem C4_Validate_frequency_floor_witness:
  "mEnableNetworking (ProfilerConfig_default\<lparr>mServerPort := 0\<rparr>)
   \<and> mServerPort (ProfilerConfig_default\<lparr>mServerPort := 0\<rparr>) = 0
   \<and> \<not> Validate (ProfilerConfig_default\<lparr>mServerPort := 0\<rparr>)
   \<and> f_gt (mUpdateFrequencyHz (ProfilerConfig_default\<lparr>mUpdateFrequencyHz := Finite 2000\<rparr>)) (Finite 1000)
   \<and> \<not> Validate (ProfilerConfig_default\<lparr>mUpdateFrequencyHz := Finite 2000\<rparr>)"
proof -
  let ?c1 = "ProfilerConfig_default\<lparr>mServerPort := 0\<rparr>"
  let ?c2 = "ProfilerConfig_default\<lparr>mUpdateFrequencyHz := Finite 2000\<rparr>"
  have h1: "mEnableNetworking ?c1" "mServerPort ?c1 = 0"
    by (simp_all add: ProfilerConfig_default_simps)
  have h2: "f_gt (mUpdateFrequencyHz ?c2) (Finite 1000)"
    by (simp add: f_gt_def)
  have c1: "\<not> Validate ?c1"
    using C4_Validate_frequency_floor [of ?c1] h1 by blast
  have c2: "\<not> Validate ?c2"
    using C4_Validate_frequency_floor [of ?c2] h2 by blast
  from h1 h2 c1 c2 show ?thesis
    by blast
qed

section \<open>Properties of the manager\<close>

lemmas manager_start_simps =
  ok_env_def ProfilerManager_new_def ManagerStatistics_zero_def ProfilerMessageQueue_new_def
  StartNetworkServer_def StartUpdateThread_def Start_def ProfilerServer_new_def Statistics_zero_def
  initializeNetworking_def cleanupNetworking_def SetOnClientConnected_def
  SetOnClientDisconnected_def SetOnError_def AM_INVALID_SOCKET_def




text \<open>
  What a failed \<open>Initialize\<close> does to the stored configuration: the assignment
  \<open>_config = config\<close> comes before the call of \<open>Validate\<close>, so the rejected
  configuration stays in \<open>_config\<close>. \<open>UpdateConfig\<close> validates first.
\<close>

lemma Initialize_stores_config_before_validation:
  "\<not> pm_initialized m \<Longrightarrow> \<not> Validate config \<Longrightarrow>
   Initialize env m config = (False, m\<lparr>pm_config := config\<rparr>)"
  by (simp add: Initialize_def Let_def)

text \<open>
  Claim C6. While capturing is disabled, or while the category mask has no bit in
  common with a capture method's category, that method returns without touching the
  manager: the manager after the call is the manager before it, so the queue has the
  same size and the same contents. This holds for \<open>CaptureChannelState\<close> and the
  Channel category, and for every other capture method and its own category;
  \<open>CaptureFullState\<close>, which has no category of its own, does nothing while capturing
  is disabled.
\<close>

theorem C6_masked_capture_is_noop:
  "(\<not> pm_enabled m \<or> mCategoryMask (pm_config m) AND category_bits eProfilerCategory_Channel = 0 \<longrightarrow>
      CaptureChannelState dc m channelId = Inr m \<and> CaptureAllChannels dc m = Inr m)
   \<and> (\<not> pm_enabled m \<or> mCategoryMask (pm_config m) AND category_bits eProfilerCategory_Engine = 0 \<longrightarrow>
      CaptureEngineState dc m = Inr m)
   \<and> (\<not> pm_enabled m \<or> mCategoryMask (pm_config m) AND category_bits eProfilerCategory_Entity = 0 \<longrightarrow>
      CaptureEntityState dc m entityId = Inr m \<and> CaptureAllEntities dc m = Inr m)
   \<and> (\<not> pm_enabled m \<or> mCategoryMask (pm_config m) AND category_bits eProfilerCategory_Listener = 0 \<longrightarrow>
      CaptureListenerState dc m listenerId = Inr m \<and> CaptureAllListeners dc m = Inr m)
   \<and> (\<not> pm_enabled m \<or> mCategoryMask (pm_config m) AND category_bits eProfilerCategory_Performance = 0 \<longrightarrow>
      CapturePerformanceMetrics dc m = Inr m)
   \<and> (\<not> pm_enabled m \<or> mCategoryMask (pm_config m) AND category_bits eProfilerCategory_Events = 0 \<longrightarrow>
      CaptureEvent m ev = Inr m)
   \<and> (\<not> pm_enabled m \<longrightarrow> CaptureFullState dc m = Inr m)"
  by (auto simp: CaptureChannelState_def CaptureAllChannels_def CaptureEngineState_def
      CaptureEntityState_def CaptureAllEntities_def CaptureListenerState_def
      CaptureAllListeners_def CapturePerformanceMetrics_def CaptureEvent_def
      CaptureFullState_def ShouldCaptureCategory_def)

text \<open>
  The scenario of the specification: an initialized, enabled manager whose mask is every
  category but Channel. \<open>CaptureChannelState\<close> leaves the manager, and so the size of
  its queue, unchanged, whatever the collector; capturing an event, whose category is
  in the mask, puts one message into the queue.
\<close>

theorem C6_masked_capture_is_noop_witness:
  "pm_enabled (SetCategoryMask (snd (Initialize ok_env ProfilerManager_new ProfilerConfig_default)) 0xFFFFFFFB)
   \<and> mCategoryMask (pm_config (SetCategoryMask
        (snd (Initialize ok_env ProfilerManager_new ProfilerConfig_default)) 0xFFFFFFFB))
       AND category_bits eProfilerCategory_Channel = 0
   \<and> (\<forall>dc. CaptureChannelState dc
        (SetCategoryMask (snd (Initialize ok_env ProfilerManager_new ProfilerConfig_default)) 0xFFFFFFFB) 7
       = Inr (SetCategoryMask (snd (Initialize ok_env ProfilerManager_new ProfilerConfig_default)) 0xFFFFFFFB))
   \<and> queue_size (SetCategoryMask (snd (Initialize ok_env ProfilerManager_new ProfilerConfig_default)) 0xFFFFFFFB)
       = Some 0
   \<and> map_sum id queue_size (CaptureEvent
        (SetCategoryMask (snd (Initialize ok_env ProfilerManager_new ProfilerConfig_default)) 0xFFFFFFFB)
        \<lparr>mTimestamp = 1500, mMessageId = 7, mCategory = eProfilerCategory_Events,
          mPriority = eProfilerPriority_Normal, mEventName = ''bank_loaded'', mDescription = '''',
          mParameters = []\<rparr>) = Inr (Some 1)"
proof -
  let ?m = "SetCategoryMask (snd (Initialize ok_env ProfilerManager_new ProfilerConfig_default)) 0xFFFFFFFB"
  have v: "Validate ProfilerConfig_default"
    by (simp add: Validate_def ProfilerConfig_default_simps f_gt_def)
  have n: "mEnableNetworking ProfilerConfig_default"
    by (simp add: ProfilerConfig_default_def)
  have e: "pm_enabled ?m"
    using v n by (simp add: SetCategoryMask_def Initialize_def Let_def manager_start_simps split: prod.splits)
  have k: "mCategoryMask (pm_config ?m) AND category_bits eProfilerCategory_Channel = 0"
    by (simp add: SetCategoryMask_def)
  have q: "pm_messageQueue ?m = Some (ProfilerMessageQueue_new 1000)"
    using v n by (simp add: SetCategoryMask_def Initialize_def Let_def manager_start_simps split: prod.splits)
  have s: "queue_size ?m = Some 0"
    by (simp add: queue_size_def q Size_def ProfilerMessageQueue_new_def)
  have c: "\<forall>dc. CaptureChannelState dc ?m 7 = Inr ?m"
    using C6_masked_capture_is_noop [of ?m] k by blast
  have ev: "map_sum id queue_size (CaptureEvent ?m
        \<lparr>mTimestamp = 1500, mMessageId = 7, mCategory = eProfilerCategory_Events,
          mPriority = eProfilerPriority_Normal, mEventName = ''bank_loaded'', mDescription = '''',
          mParameters = []\<rparr>) = Inr (Some 1)"
    using e q by (simp add: CaptureEvent_def ShouldCaptureCategory_def QueueMessage_def
        PushMessage_def queue_size_def Size_def ProfilerMessageQueue_new_def SetCategoryMask_def)
  from e k c s ev show ?thesis
    by blast
qed

text \<open>
  Claim C10. The default configuration passes validation, so \<open>Initialize\<close> with it
  never fails validation: on a manager that is not initialized and has no server, it
  returns false only if the network server cannot be started (the transport object or
  the accept thread cannot be created), and on an initialized manager it returns true.
\<close>

theorem C10_default_config_valid:
  "Validate ProfilerConfig_default
   \<and> mServerPort ProfilerConfig_default = 27002
   \<and> mMaxClients ProfilerConfig_default = 8
   \<and> mUpdateMode ProfilerConfig_default = eProfilerUpdateMode_Timed
   \<and> mUpdateFrequencyHz ProfilerConfig_default = Finite 30
   \<and> mMessageBufferSize ProfilerConfig_default = 1048576
   \<and> mMaxQueuedMessages ProfilerConfig_default = 1000
   \<and> fst (Initialize env m ProfilerConfig_default)
       = (pm_initialized m \<or> (\<exists>server. pm_networkServer m = Some server)
          \<or> (alloc_ok (net env) \<and> thread_ok (net env)))"
proof -
  have v: "Validate ProfilerConfig_default"
    by (simp add: Validate_def ProfilerConfig_default_simps f_gt_def)
  have n: "mEnableNetworking ProfilerConfig_default"
    by (simp add: ProfilerConfig_default_def)
  have i: "fst (Initialize env m ProfilerConfig_default)
       = (pm_initialized m \<or> (\<exists>server. pm_networkServer m = Some server)
          \<or> (alloc_ok (net env) \<and> thread_ok (net env)))"
    using v n
    by (auto simp: Initialize_def Let_def StartNetworkServer_def Start_def ProfilerServer_new_def
        initializeNetworking_def split: prod.splits option.splits if_splits)
  from v i show ?thesis
    by (simp add: ProfilerConfig_default_simps)
qed

text \<open>A new manager in an environment where every start succeeds: \<open>Initialize\<close> returns true.\<close>

theorem C10_default_config_valid_witness:
  "Validate ProfilerConfig_default
   \<and> fst (Initialize ok_env ProfilerManager_new ProfilerConfig_default)"
  using C10_default_config_valid [of ok_env ProfilerManager_new]
  by (simp add: ok_env_def)

section \<open>Properties of the wire encoder\<close>

lemma json_run_parameters:
  "doc = JNull \<or> (\<exists>members. doc = JObject members) \<Longrightarrow>
   \<exists>doc'. json_run (map (\<lambda>(name, v). Assign name (JString v)) ps) doc = Some doc'"
proof (induction ps arbitrary: doc)
  case Nil
  then show ?case by simp
next
  case (Cons p ps)
  obtain name v where p: "p = (name, v)" by (cases p)
  from Cons.prems obtain members where "json_assign doc name (JString v) = Some (JObject members)"
    by auto
  with Cons.IH [of "JObject members"] p show ?case by simp
qed

lemma event_params_Some: "\<exists>params. event_params arg = Some params"
  unfolding event_params_def by (rule json_run_parameters) simp

lemma serialize_root_type:
  "\<exists>doc. serialize_root data = Some doc \<and> json_type doc = Some (spec_kind_tag data)"
proof (cases data)
  case (EngineData arg)
  then show ?thesis by (simp add: base_stmts_def engine_stmts_def json_type_def)
next
  case (EntityData arg)
  then show ?thesis by (simp add: base_stmts_def entity_stmts_def vector_stmts_def json_type_def)
next
  case (ChannelData arg)
  then show ?thesis by (simp add: base_stmts_def channel_stmts_def json_type_def)
next
  case (ListenerData arg)
  then show ?thesis by (simp add: base_stmts_def listener_stmts_def vector_stmts_def json_type_def)
next
  case (PerformanceData arg)
  then show ?thesis by (simp add: base_stmts_def performance_stmts_def json_type_def)
next
  case (EventData arg)
  from event_params_Some [of arg] obtain params where "event_params arg = Some params" ..
  with EventData show ?thesis by (simp add: base_stmts_def event_stmts_def json_type_def)
qed

text \<open>
  Claim C7. The encoder has no failure path: for every snapshot of every kind the
  visitor builds a document and the encoder returns a text. The document's member
  \<open>type\<close> is the tag of the snapshot's kind. The text comes from the JSON library's
  writer; with any writer, and any reader that gets the discriminator back from what
  that writer writes, reading the discriminator of the encoder's text gives the tag of
  the snapshot's kind.
\<close>

theorem C7_encoder_discriminator:
  "(\<exists>doc. serialize_root data = Some doc \<and> json_type doc = Some (spec_kind_tag data))
   \<and> (\<exists>text. serializeProfilerData writeString data = Some text)
   \<and> ((\<forall>doc. readType (writeString doc) = json_type doc) \<longrightarrow>
        (\<exists>text. serializeProfilerData writeString data = Some text
           \<and> readType text = Some (spec_kind_tag data)))"
proof -
  from serialize_root_type [of data] obtain doc where
    doc: "serialize_root data = Some doc" "json_type doc = Some (spec_kind_tag data)"
    by blast
  then have enc: "serializeProfilerData writeString data = Some (writeString doc)"
    by (simp add: serializeProfilerData_def)
  from doc enc show ?thesis by auto
qed

lemma type_only_roundtrip: "type_only_reader (type_only_writer doc) = json_type doc"
  by (cases "json_type doc") (simp_all add: type_only_reader_def type_only_writer_def)

text \<open>An event snapshot, written by the small writer and read back.\<close>

theorem C7_encoder_discriminator_witness:
  "(\<forall>doc. type_only_reader (type_only_writer doc) = json_type doc)
   \<and> serializeProfilerData type_only_writer
        (EventData \<lparr>mTimestamp = 1500, mMessageId = 7, mCategory = eProfilerCategory_Events,
           mPriority = eProfilerPriority_Normal, mEventName = ''bank_loaded'', mDescription = '''',
           mParameters = [(''type'', ''x'')]\<rparr>) = Some ''type=event''
   \<and> type_only_reader ''type=event'' = Some ''event''"
proof -
  let ?ev = "EventData \<lparr>mTimestamp = 1500, mMessageId = 7, mCategory = eProfilerCategory_Events,
           mPriority = eProfilerPriority_Normal, mEventName = ''bank_loaded'', mDescription = '''',
           mParameters = [(''type'', ''x'')]\<rparr>"
  have h: "\<forall>doc. type_only_reader (type_only_writer doc) = json_type doc"
    by (simp add: type_only_roundtrip)
  from C7_encoder_discriminator [of ?ev type_only_writer type_only_reader] h
  obtain encoded where t: "serializeProfilerData type_only_writer ?ev = Some encoded"
    "type_only_reader encoded = Some (spec_kind_tag ?ev)"
    by blast
  have "serializeProfilerData type_only_writer ?ev = Some ''type=event''"
    by (simp add: serializeProfilerData_def event_params_def base_stmts_def event_stmts_def
        type_only_writer_def json_type_def)
  with t h show ?thesis by simp
qed

section \<open>Properties of the client table\<close>

lemma BroadcastMessage_loop_keys:
  "BroadcastMessage_loop env s jsonMessage todo visited st sentCount events = (clients, st', n, events')
   \<Longrightarrow> map fst clients = map fst visited @ map fst todo"
proof (induction todo arbitrary: visited st sentCount events)
  case Nil
  then show ?case by simp
next
  case (Cons entry rest)
  obtain clientId client where e: "entry = (clientId, client)" by (cases entry)
  obtain sent evs where snd: "sendToSocket env s (mSocket client) jsonMessage = (sent, evs)"
    by (cases "sendToSocket env s (mSocket client) jsonMessage")
  show ?case
  proof (cases "mIsConnected client \<and> sent")
    case True
    with Cons.prems e snd
    have "BroadcastMessage_loop env s jsonMessage rest
            (visited @ [(clientId, client\<lparr>mMessagesSent := mMessagesSent client + 1,
                mBytesTransmitted := mBytesTransmitted client + of_nat (length jsonMessage)\<rparr>)])
            (updateStatistics st (of_nat (length jsonMessage))) (sentCount + 1)
            (events @ evs @ [Lock StatisticsMutex, Unlock StatisticsMutex])
          = (clients, st', n, events')"
      by simp
    from Cons.IH [OF this] e show ?thesis by simp
  next
    case False
    with Cons.prems e snd obtain events1 where
      "BroadcastMessage_loop env s jsonMessage rest (visited @ [(clientId, client)]) st sentCount events1
          = (clients, st', n, events')"
      by (cases "mIsConnected client") auto
    from Cons.IH [OF this] e show ?thesis by simp
  qed
qed

lemma BroadcastMessage_clients:
  "map fst (sv_clients (fst (snd (BroadcastMessage env s jsonMessage)))) = map fst (sv_clients s)
   \<and> sv_maxClients (fst (snd (BroadcastMessage env s jsonMessage))) = sv_maxClients s"
proof -
  obtain clients st n events where
    l: "BroadcastMessage_loop env s jsonMessage (sv_clients s) [] (sv_statistics s) 0 [Lock ClientsMutex]
          = (clients, st, n, events)"
    by (cases "BroadcastMessage_loop env s jsonMessage (sv_clients s) [] (sv_statistics s) 0 [Lock ClientsMutex]")
  from BroadcastMessage_loop_keys [OF l] l show ?thesis
    by (simp add: BroadcastMessage_def)
qed

lemma map_of_Some_key: "map_of al k = Some v \<Longrightarrow> k \<in> fst ` set al"
  by (metis map_of_eq_None_iff option.distinct(1))

lemma length_update:
  "length (AList.update k v al) = (if k \<in> fst ` set al then length al else Suc (length al))"
proof -
  have "length (AList.update k v al) = length (map fst (AList.update k v al))"
    by simp
  also have "\<dots> = (if k \<in> fst ` set al then length al else Suc (length al))"
    by (simp only: AList.update_keys) simp
  finally show ?thesis .
qed

lemma SendMessageToClient_clients:
  "map fst (sv_clients (fst (snd (SendMessageToClient env s clientId jsonMessage)))) = map fst (sv_clients s)
   \<and> sv_maxClients (fst (snd (SendMessageToClient env s clientId jsonMessage))) = sv_maxClients s"
proof (cases "map_of (sv_clients s) clientId")
  case None
  then show ?thesis by (simp add: SendMessageToClient_def)
next
  case (Some client)
  then have k: "clientId \<in> fst ` set (sv_clients s)" by (rule map_of_Some_key)
  obtain success evs where snd: "sendToSocket env s (mSocket client) jsonMessage = (success, evs)"
    by (cases "sendToSocket env s (mSocket client) jsonMessage")
  from Some k snd show ?thesis
    by (simp add: SendMessageToClient_def AList.update_keys)
qed

lemma addClient_clients:
  assumes "length (sv_clients s) \<le> unat (sv_maxClients s)" and "distinct (map fst (sv_clients s))"
  shows "length (sv_clients (fst (addClient now s ws address port))) \<le> unat (sv_maxClients s)
    \<and> distinct (map fst (sv_clients (fst (addClient now s ws address port))))
    \<and> sv_maxClients (fst (addClient now s ws address port)) = sv_maxClients s"
proof (cases "unat (sv_maxClients s) \<le> length (sv_clients s)")
  case True
  with assms show ?thesis by (simp add: addClient_def Let_def)
next
  case False
  then have "Suc (length (sv_clients s)) \<le> unat (sv_maxClients s)" by simp
  with False assms(2) show ?thesis
    by (simp add: addClient_def Let_def length_update AList.distinct_update)
qed

lemma on_close_clients:
  "length (sv_clients (fst (on_close s ws))) \<le> length (sv_clients s)
   \<and> (distinct (map fst (sv_clients s)) \<longrightarrow> distinct (map fst (sv_clients (fst (on_close s ws)))))
   \<and> sv_maxClients (fst (on_close s ws)) = sv_maxClients s"
  using AList.length_delete_le [of "sv_userData s ws" "sv_clients s"]
  by (auto simp: on_close_def Let_def AList.distinct_delete split: option.splits)

lemma removeClient_clients:
  "length (sv_clients (fst (removeClient s socket))) \<le> length (sv_clients s)
   \<and> (distinct (map fst (sv_clients s)) \<longrightarrow> distinct (map fst (sv_clients (fst (removeClient s socket)))))
   \<and> sv_maxClients (fst (removeClient s socket)) = sv_maxClients s"
proof -
  obtain s' events where c: "on_close s socket = (s', events)"
    by (cases "on_close s socket")
  with on_close_clients [of s socket] show ?thesis
    by (simp add: removeClient_def ws_close_def)
qed

lemma DisconnectClient_clients:
  "length (sv_clients (fst (snd (DisconnectClient s clientId)))) \<le> length (sv_clients s)
   \<and> (distinct (map fst (sv_clients s)) \<longrightarrow>
        distinct (map fst (sv_clients (fst (snd (DisconnectClient s clientId))))))
   \<and> sv_maxClients (fst (snd (DisconnectClient s clientId))) = sv_maxClients s"
proof (cases "map_of (sv_clients s) clientId")
  case None
  then show ?thesis by (simp add: DisconnectClient_def)
next
  case (Some clientInfo)
  obtain s0 closing where r: "removeClient s (mSocket clientInfo) = (s0, closing)"
    by (cases "removeClient s (mSocket clientInfo)")
  from removeClient_clients [of s "mSocket clientInfo"] r
  have b: "length (sv_clients s0) \<le> length (sv_clients s)"
    "distinct (map fst (sv_clients s)) \<longrightarrow> distinct (map fst (sv_clients s0))"
    "sv_maxClients s0 = sv_maxClients s"
    by simp_all
  have "length (AList.delete clientId (sv_clients s0)) \<le> length (sv_clients s)"
    using AList.length_delete_le [of clientId "sv_clients s0"] b(1) by simp
  with Some r b show ?thesis
    by (simp add: DisconnectClient_def Let_def AList.distinct_delete)
qed

lemma server_step_clients:
  assumes "length (sv_clients s) \<le> unat (sv_maxClients s)" and "distinct (map fst (sv_clients s))"
  shows "length (sv_clients (fst (server_step env s c))) \<le> unat (sv_maxClients s)
    \<and> distinct (map fst (sv_clients (fst (server_step env s c))))
    \<and> sv_maxClients (fst (server_step env s c)) = sv_maxClients s"
proof (cases c)
  case (EvOpen now ws remoteAddr)
  let ?s1 = "s\<lparr>sv_nextClientId := sv_nextClientId s + 1,
      sv_userData := (sv_userData s)(ws := sv_nextClientId s)\<rparr>"
  have "fst (server_step env s c) = fst (addClient now ?s1 ws remoteAddr 0)"
    by (simp add: EvOpen on_open_def generateClientId_def)
  moreover have "length (sv_clients ?s1) \<le> unat (sv_maxClients ?s1)" "distinct (map fst (sv_clients ?s1))"
    using assms by simp_all
  ultimately show ?thesis
    using addClient_clients [of ?s1 now ws remoteAddr 0] by simp
next
  case (EvMessage ws message)
  with assms show ?thesis by (simp add: on_message_def)
next
  case (EvClose ws)
  with assms AList.length_delete_le [of "sv_userData s ws" "sv_clients s"] show ?thesis
    by (auto simp: on_close_def Let_def AList.distinct_delete split: option.splits)
next
  case EvListenFailed
  with assms show ?thesis by (simp add: on_listen_failed_def)
next
  case EvLoopStarted
  with assms show ?thesis by (simp add: acceptThread_enter_def)
next
  case EvLoopExited
  with assms show ?thesis by (simp add: acceptThread_exit_def)
next
  case (OpDisconnectClient clientId)
  with assms DisconnectClient_clients [of s clientId] show ?thesis
    by simp
next
  case (OpBroadcastMessage jsonMessage)
  have "length (sv_clients (fst (snd (BroadcastMessage env s jsonMessage)))) = length (sv_clients s)"
    using BroadcastMessage_clients [of env s jsonMessage] by (metis length_map)
  with OpBroadcastMessage assms BroadcastMessage_clients [of env s jsonMessage] show ?thesis
    by simp
next
  case (OpSendMessageToClient clientId jsonMessage)
  have "length (sv_clients (fst (snd (SendMessageToClient env s clientId jsonMessage))))
      = length (sv_clients s)"
    using SendMessageToClient_clients [of env s clientId jsonMessage] by (metis length_map)
  with OpSendMessageToClient assms SendMessageToClient_clients [of env s clientId jsonMessage]
  show ?thesis
    by simp
next
  case (OpSetOnClientConnected cb)
  with assms show ?thesis by (simp add: SetOnClientConnected_def)
next
  case (OpSetOnClientDisconnected cb)
  with assms show ?thesis by (simp add: SetOnClientDisconnected_def)
next
  case (OpSetOnMessageReceived cb)
  with assms show ?thesis by (simp add: SetOnMessageReceived_def)
next
  case (OpSetOnError cb)
  with assms show ?thesis by (simp add: SetOnError_def)
next
  case OpStop
  with assms show ?thesis
    by (simp add: Stop_def disconnectAllClients_def cleanupNetworking_def Let_def)
qed

lemma server_run_Cons_fst:
  "fst (server_run env s (c # cs)) = fst (server_run env (fst (server_step env s c)) cs)"
  by (simp split: prod.splits)

lemma server_run_clients:
  "length (sv_clients s) \<le> unat (sv_maxClients s) \<Longrightarrow> distinct (map fst (sv_clients s)) \<Longrightarrow>
   length (sv_clients (fst (server_run env s cs))) \<le> unat (sv_maxClients s)
   \<and> distinct (map fst (sv_clients (fst (server_run env s cs))))
   \<and> sv_maxClients (fst (server_run env s cs)) = sv_maxClients s"
proof (induction cs arbitrary: s)
  case Nil
  then show ?case by simp
next
  case (Cons c cs)
  let ?s1 = "fst (server_step env s c)"
  from server_step_clients [OF Cons.prems, of env c]
  have b: "length (sv_clients ?s1) \<le> unat (sv_maxClients s)" "distinct (map fst (sv_clients ?s1))"
    "sv_maxClients ?s1 = sv_maxClients s"
    by blast+
  from b(1) have b1: "length (sv_clients ?s1) \<le> unat (sv_maxClients ?s1)"
    unfolding b(3) .
  from Cons.IH [OF b1 b(2)] show ?case
    unfolding server_run_Cons_fst b(3) .
qed

lemma Start_clients:
  "sv_clients (snd (Start env (ProfilerServer_new t0) port bindAddress maxClients)) = []
   \<and> sv_maxClients (snd (Start env (ProfilerServer_new t0) port bindAddress maxClients)) = maxClients"
  by (simp add: Start_def ProfilerServer_new_def initializeNetworking_def cleanupNetworking_def Let_def)

text \<open>
  Claim C8. A connection that arrives while the table holds \<open>_maxClients\<close> sessions (or
  more) is closed at once and the table stays as it is. Hence, for a server started with
  the limit \<open>maxClients\<close> and any sequence of events after that, the table never holds
  more than \<open>maxClients\<close> sessions, and \<open>GetClientCount()\<close> is the size of the table and
  never exceeds \<open>maxClients\<close>.
\<close>

theorem C8_client_table_bounded:
  "(unat (sv_maxClients s) \<le> length (sv_clients s) \<and> ws \<noteq> AM_INVALID_SOCKET \<longrightarrow>
      sv_clients (fst (on_open now s ws remoteAddr)) = sv_clients s
      \<and> snd (on_open now s ws remoteAddr) = [Lock ClientsMutex, Unlock ClientsMutex, CloseSocket ws])
   \<and> (let s' = fst (server_run env (snd (Start env (ProfilerServer_new t0) port bindAddress maxClients)) cs)
       in length (sv_clients s') \<le> unat maxClients
          \<and> distinct (map fst (sv_clients s'))
          \<and> unat (GetClientCount s') = length (sv_clients s')
          \<and> GetClientCount s' \<le> maxClients
          \<and> GetMaxClients s' = maxClients)"
proof (rule conjI, rule impI)
  assume "unat (sv_maxClients s) \<le> length (sv_clients s) \<and> ws \<noteq> AM_INVALID_SOCKET"
  then show "sv_clients (fst (on_open now s ws remoteAddr)) = sv_clients s
      \<and> snd (on_open now s ws remoteAddr) = [Lock ClientsMutex, Unlock ClientsMutex, CloseSocket ws]"
    by (simp add: on_open_def generateClientId_def addClient_def Let_def)
next
  let ?s0 = "snd (Start env (ProfilerServer_new t0) port bindAddress maxClients)"
  let ?s' = "fst (server_run env ?s0 cs)"
  note st = Start_clients [of env t0 port bindAddress maxClients]
  have i1: "length (sv_clients ?s0) \<le> unat (sv_maxClients ?s0)"
    using st by simp
  have i2: "distinct (map fst (sv_clients ?s0))"
    using st by simp
  note r = server_run_clients [OF i1 i2, of env cs]
  have len: "length (sv_clients ?s') \<le> unat maxClients"
    using r st by simp
  have dist: "distinct (map fst (sv_clients ?s'))"
    using r by blast
  have mx: "GetMaxClients ?s' = maxClients"
    using r st by (simp add: GetMaxClients_def)
  have cnt: "unat (GetClientCount ?s') = length (sv_clients ?s')"
    unfolding GetClientCount_def using len by (rule le_unat_uoi)
  have le: "GetClientCount ?s' \<le> maxClients"
    using cnt len by (simp add: word_le_nat_alt)
  from len dist cnt le mx
  show "let s' = ?s' in length (sv_clients s') \<le> unat maxClients
          \<and> distinct (map fst (sv_clients s'))
          \<and> unat (GetClientCount s') = length (sv_clients s')
          \<and> GetClientCount s' \<le> maxClients
          \<and> GetMaxClients s' = maxClients"
    by (simp add: Let_def)
qed

text \<open>
  The scenario of the specification: a server with \<open>maxClients = 1\<close> and two connection
  attempts. The first becomes the one session, the second is rejected and closed, and
  \<open>GetClientCount()\<close> is 1.
\<close>

theorem C8_client_table_bounded_witness:
  "map fst (sv_clients (fst (server_run \<lparr>alloc_ok = True, thread_ok = True, send_ok = (\<lambda>ws m. True)\<rparr>
       (snd (Start \<lparr>alloc_ok = True, thread_ok = True, send_ok = (\<lambda>ws m. True)\<rparr>
          (ProfilerServer_new 0) 27002 ''127.0.0.1'' 1))
       [EvLoopStarted, EvOpen 5 100 ''10.0.0.1'']))) = [1]
   \<and> snd (on_open 6 (fst (server_run \<lparr>alloc_ok = True, thread_ok = True, send_ok = (\<lambda>ws m. True)\<rparr>
       (snd (Start \<lparr>alloc_ok = True, thread_ok = True, send_ok = (\<lambda>ws m. True)\<rparr>
          (ProfilerServer_new 0) 27002 ''127.0.0.1'' 1))
       [EvLoopStarted, EvOpen 5 100 ''10.0.0.1''])) 200 ''10.0.0.2'')
     = [Lock ClientsMutex, Unlock ClientsMutex, CloseSocket 200]
   \<and> GetClientCount (fst (server_run \<lparr>alloc_ok = True, thread_ok = True, send_ok = (\<lambda>ws m. True)\<rparr>
       (snd (Start \<lparr>alloc_ok = True, thread_ok = True, send_ok = (\<lambda>ws m. True)\<rparr>
          (ProfilerServer_new 0) 27002 ''127.0.0.1'' 1))
       [EvLoopStarted, EvOpen 5 100 ''10.0.0.1'', EvOpen 6 200 ''10.0.0.2''])) = 1"
proof -
  let ?env = "\<lparr>alloc_ok = True, thread_ok = True, send_ok = (\<lambda>ws m. True)\<rparr>"
  let ?s0 = "snd (Start ?env (ProfilerServer_new 0) 27002 ''127.0.0.1'' 1)"
  let ?s1 = "fst (server_run ?env ?s0 [EvLoopStarted, EvOpen 5 100 ''10.0.0.1''])"
  let ?s2 = "fst (server_run ?env ?s0 [EvLoopStarted, EvOpen 5 100 ''10.0.0.1'', EvOpen 6 200 ''10.0.0.2''])"
  have s1: "sv_maxClients ?s1 = 1 \<and> map fst (sv_clients ?s1) = [1]"
    by (simp add: Start_def ProfilerServer_new_def initializeNetworking_def acceptThread_enter_def
        on_open_def generateClientId_def addClient_def AM_INVALID_SOCKET_def Let_def)
  have h: "unat (sv_maxClients ?s1) \<le> length (sv_clients ?s1) \<and> (200 :: SocketHandle) \<noteq> AM_INVALID_SOCKET"
  proof -
    have "length (sv_clients ?s1) = length (map fst (sv_clients ?s1))" by simp
    also have "\<dots> = 1" by (simp only: s1) simp
    finally show ?thesis using s1 by (simp add: AM_INVALID_SOCKET_def)
  qed
  note t = C8_client_table_bounded [of ?s1 200 6 "''10.0.0.2''" ?env 0 27002 "''127.0.0.1''" 1
      "[EvLoopStarted, EvOpen 5 100 ''10.0.0.1'', EvOpen 6 200 ''10.0.0.2'']"]
  have c2: "snd (on_open 6 ?s1 200 ''10.0.0.2'') = [Lock ClientsMutex, Unlock ClientsMutex, CloseSocket 200]"
    using t h by blast
  have same: "sv_clients (fst (on_open 6 ?s1 200 ''10.0.0.2'')) = sv_clients ?s1"
    using t h by blast
  have s2: "?s2 = fst (on_open 6 ?s1 200 ''10.0.0.2'')"
    by (simp split: prod.splits)
  have "unat (GetClientCount ?s2) = length (sv_clients ?s2)"
    using t unfolding Let_def by blast
  also have "\<dots> = length (map fst (sv_clients ?s1))"
    by (simp only: s2 same length_map)
  also have "\<dots> = 1"
    by (simp only: s1) simp
  finally have c3: "GetClientCount ?s2 = 1"
    by (simp add: word_eq_iff_unsigned [where ?'a = nat])
  from s1 c2 c3 show ?thesis
    by blast
qed

section \<open>Locks held when a callback runs\<close>














text \<open>
  \<open>DisconnectClient\<close> on a connected client: the close handler runs inside
  \<open>ws->close()\<close> while the clients mutex is held, erases the entry and invokes the
  disconnected callback there; the method's own erase then goes through an invalid
  iterator, and the callback is invoked a second time after the mutexes are released.
\<close>

lemma DisconnectClient_close_handler_trace:
  "snd (server_run \<lparr>alloc_ok = True, thread_ok = True, send_ok = (\<lambda>ws m. True)\<rparr>
          (ProfilerServer_new 0)
          [OpSetOnClientDisconnected True, EvOpen 5 100 ''10.0.0.1'', OpDisconnectClient 1])
   = [Lock CallbacksMutex, Unlock CallbacksMutex,
      Lock ClientsMutex, Unlock ClientsMutex, Lock StatisticsMutex, Unlock StatisticsMutex,
      Lock CallbacksMutex, Unlock CallbacksMutex,
      Lock ClientsMutex, CloseSocket 100,
      Lock ClientsMutex, Unlock ClientsMutex, Lock StatisticsMutex, Unlock StatisticsMutex,
      Lock CallbacksMutex, Invoke OnClientDisconnected, Unlock CallbacksMutex,
      InvalidIteratorErase, Unlock ClientsMutex, Lock StatisticsMutex, Unlock StatisticsMutex,
      Lock CallbacksMutex, Invoke OnClientDisconnected, Unlock CallbacksMutex]
   \<and> invocations [] (snd (server_run \<lparr>alloc_ok = True, thread_ok = True, send_ok = (\<lambda>ws m. True)\<rparr>
          (ProfilerServer_new 0)
          [OpSetOnClientDisconnected True, EvOpen 5 100 ''10.0.0.1'', OpDisconnectClient 1]))
     = [(OnClientDisconnected, [CallbacksMutex, ClientsMutex]),
        (OnClientDisconnected, [CallbacksMutex])]"
  by (simp add: ProfilerServer_new_def SetOnClientDisconnected_def on_open_def generateClientId_def
      addClient_def DisconnectClient_def removeClient_def ws_close_def on_close_def
      triggerEvent_def callback_body_def AM_INVALID_SOCKET_def Let_def)

end
